theory Spec2Isabelle
  imports Main "HOL-Library.Multiset"
begin

section \<open>The in-memory store of the diet tracker (server/storage.ts)\<close>

text \<open>
  Identifiers are JavaScript numbers that only ever hold integers (counters starting at 1,
  incremented by one), modelled as \<open>int\<close>. A valid \<open>Date\<close> is modelled by its time value
  in milliseconds, an \<open>int\<close>. Strings are byte lists holding the UTF-8 text of the source.
  A nullable or optional column is an \<open>option\<close> (\<open>None\<close> for null or absent).
\<close>

subsection \<open>Map: insertion-ordered, one entry per key\<close>

text \<open>
  A JavaScript \<open>Map\<close> iterates in insertion order; \<open>set\<close> on a key that is present
  replaces the value in place, on a new key it appends; \<open>delete\<close> answers whether the
  key was present.
\<close>

type_synonym 'v jsmap = "(int \<times> 'v) list"

definition Map_get :: "'v jsmap \<Rightarrow> int \<Rightarrow> 'v option" where
  "Map_get m k = map_of m k"

fun Map_set :: "int \<Rightarrow> 'v \<Rightarrow> 'v jsmap \<Rightarrow> 'v jsmap" where
  "Map_set k v [] = [(k, v)]"
| "Map_set k v (p # ps) = (if fst p = k then (k, v) # ps else p # Map_set k v ps)"

definition Map_has :: "'v jsmap \<Rightarrow> int \<Rightarrow> bool" where
  "Map_has m k = (k \<in> set (map fst m))"

definition Map_delete :: "int \<Rightarrow> 'v jsmap \<Rightarrow> bool \<times> 'v jsmap" where
  "Map_delete k m = (Map_has m k, filter (\<lambda>p. fst p \<noteq> k) m)"

definition Map_values :: "'v jsmap \<Rightarrow> 'v list" where
  "Map_values m = map snd m"

subsection \<open>Array.prototype.sort and slice\<close>

text \<open>
  \<open>sort\<close> reads a comparator result \<open>NaN\<close> (here \<open>None\<close>) as \<open>+0\<close>. Node's engine sorts
  an array of fewer than 64 elements as a single run: it takes the longest ascending or
  strictly descending run at the front (\<open>CountAndMakeRun\<close>, which reverses a descending
  one) and inserts each later element by binary search (\<open>BinaryInsertionSort\<close>). From 64
  elements on it merges several runs. There, for a comparator that is consistent on the
  elements of the array (ECMA-262, 23.1.3.30.2: reflexive, symmetric and transitive in its
  zeros, transitive in its negatives and in its positives) the result is fixed by the
  language: the sorted order, elements that compare equal in their original order; for
  any other comparator the order is the engine's, the parameter \<open>engine\<close>.
\<close>

type_synonym 'a engine_order = "('a \<Rightarrow> 'a \<Rightarrow> int option) \<Rightarrow> 'a list \<Rightarrow> 'a list"

definition cmp_value :: "int option \<Rightarrow> int" where
  "cmp_value v = (case v of None \<Rightarrow> 0 | Some n \<Rightarrow> n)"

definition consistent :: "('a \<Rightarrow> 'a \<Rightarrow> int option) \<Rightarrow> 'a list \<Rightarrow> bool" where
  "consistent cmp xs =
     (\<forall>a \<in> set xs. \<forall>b \<in> set xs. \<forall>c \<in> set xs.
        cmp_value (cmp a a) = 0
        \<and> (cmp_value (cmp a b) = 0 \<longrightarrow> cmp_value (cmp b a) = 0)
        \<and> (cmp_value (cmp a b) = 0 \<and> cmp_value (cmp b c) = 0 \<longrightarrow> cmp_value (cmp a c) = 0)
        \<and> (cmp_value (cmp a b) < 0 \<and> cmp_value (cmp b c) < 0 \<longrightarrow> cmp_value (cmp a c) < 0)
        \<and> (cmp_value (cmp a b) > 0 \<and> cmp_value (cmp b c) > 0 \<longrightarrow> cmp_value (cmp a c) > 0))"

text \<open>The sorted order of a consistent comparator, by stable insertion.\<close>

fun insert_sorted :: "('a \<Rightarrow> 'a \<Rightarrow> int option) \<Rightarrow> 'a \<Rightarrow> 'a list \<Rightarrow> 'a list" where
  "insert_sorted cmp x [] = [x]"
| "insert_sorted cmp x (y # ys) =
     (if cmp_value (cmp x y) \<le> 0 then x # y # ys else y # insert_sorted cmp x ys)"

definition stable_sort :: "('a \<Rightarrow> 'a \<Rightarrow> int option) \<Rightarrow> 'a list \<Rightarrow> 'a list" where
  "stable_sort cmp xs = foldr (insert_sorted cmp) xs []"

text \<open>\<open>CountAndMakeRun\<close>: the run goes on while \<open>Compare(current, previous)\<close> is negative
  (descending) or not negative (ascending); the result is the run, ascending, and the
  elements after it.\<close>

fun extend_run ::
  "('a \<Rightarrow> 'a \<Rightarrow> int option) \<Rightarrow> bool \<Rightarrow> 'a \<Rightarrow> 'a list \<Rightarrow> 'a list \<times> 'a list" where
  "extend_run cmp isDescending previous [] = ([], [])"
| "extend_run cmp isDescending previous (current # rest) =
     (let order = cmp_value (cmp current previous)
      in if (if isDescending then order \<ge> 0 else order < 0) then ([], current # rest)
         else (let (further, remaining) = extend_run cmp isDescending current rest
               in (current # further, remaining)))"

fun CountAndMakeRun :: "('a \<Rightarrow> 'a \<Rightarrow> int option) \<Rightarrow> 'a list \<Rightarrow> 'a list \<times> 'a list" where
  "CountAndMakeRun cmp [] = ([], [])"
| "CountAndMakeRun cmp [x] = ([x], [])"
| "CountAndMakeRun cmp (elementHigh # elementLow # rest) =
     (let order = cmp_value (cmp elementLow elementHigh);
          isDescending = order < 0;
          (further, remaining) = extend_run cmp isDescending elementLow rest;
          found = elementHigh # elementLow # further
      in (if isDescending then rev found else found, remaining))"

text \<open>The binary search of \<open>BinaryInsertionSort\<close> for the place of \<open>pivot\<close> among the
  elements before it.\<close>

function search_place ::
  "('a \<Rightarrow> 'a \<Rightarrow> int option) \<Rightarrow> 'a \<Rightarrow> 'a list \<Rightarrow> nat \<Rightarrow> nat \<Rightarrow> nat" where
  "search_place cmp pivot workArray left right =
     (if left < right
      then (let mid = left + (right - left) div 2;
                order = cmp_value (cmp pivot (workArray ! mid))
            in if order < 0 then search_place cmp pivot workArray left mid
               else search_place cmp pivot workArray (mid + 1) right)
      else left)"
  by pat_completeness auto
termination
  by (relation "measure (\<lambda>(cmp, pivot, workArray, left, right). right - left)") auto

declare search_place.simps [simp del]

fun BinaryInsertionSort :: "('a \<Rightarrow> 'a \<Rightarrow> int option) \<Rightarrow> 'a list \<Rightarrow> 'a list \<Rightarrow> 'a list" where
  "BinaryInsertionSort cmp placed [] = placed"
| "BinaryInsertionSort cmp placed (pivot # rest) =
     (let left = search_place cmp pivot placed 0 (length placed)
      in BinaryInsertionSort cmp (take left placed @ [pivot] @ drop left placed) rest)"

definition single_run_sort :: "('a \<Rightarrow> 'a \<Rightarrow> int option) \<Rightarrow> 'a list \<Rightarrow> 'a list" where
  "single_run_sort cmp xs =
     (if length xs < 2 then xs
      else (let (found, remaining) = CountAndMakeRun cmp xs
            in BinaryInsertionSort cmp found remaining))"

definition Array_sort :: "'a engine_order \<Rightarrow> ('a \<Rightarrow> 'a \<Rightarrow> int option) \<Rightarrow> 'a list \<Rightarrow> 'a list" where
  "Array_sort engine cmp xs =
     (if length xs < 64 then single_run_sort cmp xs
      else if consistent cmp xs then stable_sort cmp xs
      else engine cmp xs)"

text \<open>\<open>limit && limit > 0 ? sorted.slice(0, limit) : sorted\<close>; \<open>None\<close> is an absent limit
  (or \<open>NaN\<close>, which is falsy too).\<close>

definition apply_limit :: "int option \<Rightarrow> 'a list \<Rightarrow> 'a list" where
  "apply_limit limit sorted_list =
     (case limit of
        None \<Rightarrow> sorted_list
      | Some n \<Rightarrow> if n \<noteq> 0 \<and> n > 0 then take (nat n) sorted_list else sorted_list)"

text \<open>The loop \<open>for (const x of map.values()) if (p x) results.push(x)\<close>.\<close>

fun collect :: "('a \<Rightarrow> bool) \<Rightarrow> 'a list \<Rightarrow> 'a list \<Rightarrow> 'a list" where
  "collect p [] results = results"
| "collect p (x # xs) results = collect p xs (if p x then results @ [x] else results)"

text \<open>\<open>{...old, ...partial}\<close> for one key: a key present in the partial wins.\<close>

definition spread :: "'a \<Rightarrow> 'a option \<Rightarrow> 'a" where
  "spread old new = (case new of None \<Rightarrow> old | Some v \<Rightarrow> v)"

subsection \<open>Entities (shared/schema.ts)\<close>

datatype json =
    JNull | JBool bool | JNum int | JString string
  | JArray "json list" | JObject "(string \<times> json) list"

text \<open>The \<open>date\<close> of a measurement is optional on insert and nullable: \<open>new Date(null)\<close> is
  the epoch, \<open>new Date(undefined)\<close> is an invalid date whose time is \<open>NaN\<close>.\<close>

datatype date_field = DateUndefined | DateNull | DateValue int

fun getTime :: "date_field \<Rightarrow> int option" where
  "getTime DateUndefined = None"
| "getTime DateNull = Some 0"
| "getTime (DateValue t) = Some t"

record User =
  u_id :: int
  u_username :: string
  u_password :: string
  u_email :: string
  u_fullName :: string
  u_profileImage :: "string option"
  u_telegramToken :: "string option"
  u_telegramChatId :: "string option"
  u_createdAt :: int

record InsertUser =
  iu_username :: string
  iu_password :: string
  iu_email :: string
  iu_fullName :: string
  iu_profileImage :: "string option"
  iu_telegramToken :: "string option"
  iu_telegramChatId :: "string option"

record Client =
  c_id :: int
  c_userId :: int
  c_fullName :: string
  c_email :: string
  c_phone :: string
  c_birthDate :: "int option"
  c_gender :: string
  c_profileImage :: "string option"
  c_height :: "string option"
  c_startingWeight :: "string option"
  c_targetWeight :: "string option"
  c_activityLevel :: "string option"
  c_medicalHistory :: "string option"
  c_dietaryRestrictions :: "string option"
  c_telegramChatId :: "string option"
  c_notes :: "string option"
  c_isActive :: "bool option"
  c_createdAt :: int

record InsertClient =
  ic_userId :: int
  ic_fullName :: string
  ic_email :: string
  ic_phone :: string
  ic_birthDate :: "int option"
  ic_gender :: string
  ic_profileImage :: "string option"
  ic_height :: "string option"
  ic_startingWeight :: "string option"
  ic_targetWeight :: "string option"
  ic_activityLevel :: "string option"
  ic_medicalHistory :: "string option"
  ic_dietaryRestrictions :: "string option"
  ic_telegramChatId :: "string option"
  ic_notes :: "string option"
  ic_isActive :: "bool option"

text \<open>
  The object handed to an update. Its declared type is \<open>Partial<InsertClient>\<close>, every
  key of which may be absent (\<open>None\<close>); the spread of the update copies every key the
  object has, and the routes hand over the request body as it came, so the object can
  carry the keys \<open>id\<close> and \<open>createdAt\<close> of the entity as well. Values are taken to have
  the type of their column.
\<close>

record PartialInsertClient =
  pc_id :: "int option"
  pc_userId :: "int option"
  pc_fullName :: "string option"
  pc_email :: "string option"
  pc_phone :: "string option"
  pc_birthDate :: "int option option"
  pc_gender :: "string option"
  pc_profileImage :: "string option option"
  pc_height :: "string option option"
  pc_startingWeight :: "string option option"
  pc_targetWeight :: "string option option"
  pc_activityLevel :: "string option option"
  pc_medicalHistory :: "string option option"
  pc_dietaryRestrictions :: "string option option"
  pc_telegramChatId :: "string option option"
  pc_notes :: "string option option"
  pc_isActive :: "bool option option"
  pc_createdAt :: "int option"

record Measurement =
  m_id :: int
  m_clientId :: int
  m_date :: date_field
  m_weight :: "string option"
  m_chest :: "string option"
  m_waist :: "string option"
  m_hip :: "string option"
  m_arm :: "string option"
  m_thigh :: "string option"
  m_bodyFatPercentage :: "string option"
  m_notes :: "string option"

record InsertMeasurement =
  im_clientId :: int
  im_date :: date_field
  im_weight :: "string option"
  im_chest :: "string option"
  im_waist :: "string option"
  im_hip :: "string option"
  im_arm :: "string option"
  im_thigh :: "string option"
  im_bodyFatPercentage :: "string option"
  im_notes :: "string option"

record PartialInsertMeasurement =
  pm_id :: "int option"
  pm_clientId :: "int option"
  pm_date :: "date_field option"
  pm_weight :: "string option option"
  pm_chest :: "string option option"
  pm_waist :: "string option option"
  pm_hip :: "string option option"
  pm_arm :: "string option option"
  pm_thigh :: "string option option"
  pm_bodyFatPercentage :: "string option option"
  pm_notes :: "string option option"

record DietPlan =
  d_id :: int
  d_userId :: int
  d_clientId :: int
  d_name :: string
  d_description :: "string option"
  d_startDate :: int
  d_endDate :: "int option"
  d_dailyCalories :: "string option"
  d_macroProtein :: "string option"
  d_macroCarbs :: "string option"
  d_macroFat :: "string option"
  d_meals :: json
  d_isActive :: "bool option"
  d_createdAt :: int

record InsertDietPlan =
  idp_userId :: int
  idp_clientId :: int
  idp_name :: string
  idp_description :: "string option"
  idp_startDate :: int
  idp_endDate :: "int option"
  idp_dailyCalories :: "string option"
  idp_macroProtein :: "string option"
  idp_macroCarbs :: "string option"
  idp_macroFat :: "string option"
  idp_meals :: json
  idp_isActive :: "bool option"

record PartialInsertDietPlan =
  pdp_id :: "int option"
  pdp_userId :: "int option"
  pdp_clientId :: "int option"
  pdp_name :: "string option"
  pdp_description :: "string option option"
  pdp_startDate :: "int option"
  pdp_endDate :: "int option option"
  pdp_dailyCalories :: "string option option"
  pdp_macroProtein :: "string option option"
  pdp_macroCarbs :: "string option option"
  pdp_macroFat :: "string option option"
  pdp_meals :: "json option"
  pdp_isActive :: "bool option option"
  pdp_createdAt :: "int option"

record Appointment =
  a_id :: int
  a_userId :: int
  a_clientId :: int
  a_date :: int
  a_duration :: int
  a_type :: string
  a_notes :: "string option"
  a_status :: "string option"
  a_createdAt :: int

record InsertAppointment =
  ia_userId :: int
  ia_clientId :: int
  ia_date :: int
  ia_duration :: int
  ia_type :: string
  ia_notes :: "string option"
  ia_status :: "string option"

record PartialInsertAppointment =
  pa_id :: "int option"
  pa_userId :: "int option"
  pa_clientId :: "int option"
  pa_date :: "int option"
  pa_duration :: "int option"
  pa_type :: "string option"
  pa_notes :: "string option option"
  pa_status :: "string option option"
  pa_createdAt :: "int option"

record Activity =
  act_id :: int
  act_userId :: int
  act_clientId :: "int option"
  act_type :: string
  act_description :: string
  act_createdAt :: int

record InsertActivity =
  iact_userId :: int
  iact_clientId :: "int option"
  iact_type :: string
  iact_description :: string

record BlogArticle =
  b_id :: int
  b_title :: string
  b_summary :: string
  b_content :: string
  b_author :: string
  b_imageUrl :: "string option"
  b_readTime :: "int option"
  b_publishedAt :: int

record InsertBlogArticle =
  ib_title :: string
  ib_summary :: string
  ib_content :: string
  ib_author :: string
  ib_imageUrl :: "string option"
  ib_readTime :: "int option"

subsection \<open>MemStorage\<close>

record MemStorage =
  users :: "User jsmap"
  clients :: "Client jsmap"
  measurements :: "Measurement jsmap"
  dietPlans :: "DietPlan jsmap"
  appointments :: "Appointment jsmap"
  activities :: "Activity jsmap"
  blogArticles :: "BlogArticle jsmap"
  userIdCounter :: int
  clientIdCounter :: int
  measurementIdCounter :: int
  dietPlanIdCounter :: int
  appointmentIdCounter :: int
  activityIdCounter :: int
  blogArticleIdCounter :: int


text \<open>User methods. \<open>bcrypt.hash\<close> is a parameter.\<close>

definition getUser :: "MemStorage \<Rightarrow> int \<Rightarrow> User option" where
  "getUser s i = Map_get (users s) i"

fun first_with_username :: "string \<Rightarrow> User list \<Rightarrow> User option" where
  "first_with_username username [] = None"
| "first_with_username username (user # rest) =
     (if u_username user = username then Some user else first_with_username username rest)"

definition getUserByUsername :: "MemStorage \<Rightarrow> string \<Rightarrow> User option" where
  "getUserByUsername s username = first_with_username username (Map_values (users s))"

definition createUser ::
  "(string \<Rightarrow> string) \<Rightarrow> int \<Rightarrow> InsertUser \<Rightarrow> MemStorage \<Rightarrow> User \<times> MemStorage" where
  "createUser bcrypt_hash now userData s =
     (let hashedPassword = bcrypt_hash (iu_password userData);
          i = userIdCounter s;
          user = \<lparr> u_id = i, u_username = iu_username userData, u_password = hashedPassword,
                   u_email = iu_email userData, u_fullName = iu_fullName userData,
                   u_profileImage = iu_profileImage userData,
                   u_telegramToken = iu_telegramToken userData,
                   u_telegramChatId = iu_telegramChatId userData, u_createdAt = now \<rparr>
      in (user, s\<lparr> userIdCounter := i + 1, users := Map_set i user (users s) \<rparr>))"

text \<open>Activity methods.\<close>

definition createActivity :: "int \<Rightarrow> InsertActivity \<Rightarrow> MemStorage \<Rightarrow> Activity \<times> MemStorage" where
  "createActivity now activityData s =
     (let i = activityIdCounter s;
          activity = \<lparr> act_id = i, act_userId = iact_userId activityData,
                       act_clientId = iact_clientId activityData,
                       act_type = iact_type activityData,
                       act_description = iact_description activityData,
                       act_createdAt = now \<rparr>
      in (activity, s\<lparr> activityIdCounter := i + 1,
                        activities := Map_set i activity (activities s) \<rparr>))"

definition getActivitiesForUser :: "Activity engine_order \<Rightarrow> MemStorage \<Rightarrow> int \<Rightarrow> int option \<Rightarrow> Activity list" where
  "getActivitiesForUser engine s userId limit =
     (let results = collect (\<lambda>activity. act_userId activity = userId)
                      (Map_values (activities s)) [];
          sorted_list =
            Array_sort engine (\<lambda>a b. Some (act_createdAt b - act_createdAt a)) results
      in apply_limit limit sorted_list)"

text \<open>Client methods. Each \<open>new Date()\<close> is a clock reading passed in.\<close>

definition getClientsForUser :: "MemStorage \<Rightarrow> int \<Rightarrow> Client list" where
  "getClientsForUser s userId =
     collect (\<lambda>client. c_userId client = userId) (Map_values (clients s)) []"

definition getClient :: "MemStorage \<Rightarrow> int \<Rightarrow> Client option" where
  "getClient s i = Map_get (clients s) i"

definition createClient ::
  "int \<Rightarrow> int \<Rightarrow> InsertClient \<Rightarrow> MemStorage \<Rightarrow> Client \<times> MemStorage" where
  "createClient now now' clientData s =
     (let i = clientIdCounter s;
          client = \<lparr> c_id = i, c_userId = ic_userId clientData,
                     c_fullName = ic_fullName clientData, c_email = ic_email clientData,
                     c_phone = ic_phone clientData, c_birthDate = ic_birthDate clientData,
                     c_gender = ic_gender clientData,
                     c_profileImage = ic_profileImage clientData,
                     c_height = ic_height clientData,
                     c_startingWeight = ic_startingWeight clientData,
                     c_targetWeight = ic_targetWeight clientData,
                     c_activityLevel = ic_activityLevel clientData,
                     c_medicalHistory = ic_medicalHistory clientData,
                     c_dietaryRestrictions = ic_dietaryRestrictions clientData,
                     c_telegramChatId = ic_telegramChatId clientData,
                     c_notes = ic_notes clientData, c_isActive = ic_isActive clientData,
                     c_createdAt = now \<rparr>;
          s1 = s\<lparr> clientIdCounter := i + 1, clients := Map_set i client (clients s) \<rparr>;
          (activity, s2) = createActivity now'
             \<lparr> iact_userId = ic_userId clientData, iact_clientId = Some i,
               iact_type = ''client'',
               iact_description =
                 ''Yeni dan'' @ [CHR 0xC4, CHR 0xB1, CHR 0xC5, CHR 0x9F] @ ''an eklendi: ''
                 @ ic_fullName clientData \<rparr> s1
      in (client, s2))"

definition merge_Client :: "Client \<Rightarrow> PartialInsertClient \<Rightarrow> Client" where
  "merge_Client client clientData =
     client\<lparr> c_id := spread (c_id client) (pc_id clientData),
             c_userId := spread (c_userId client) (pc_userId clientData),
             c_fullName := spread (c_fullName client) (pc_fullName clientData),
             c_email := spread (c_email client) (pc_email clientData),
             c_phone := spread (c_phone client) (pc_phone clientData),
             c_birthDate := spread (c_birthDate client) (pc_birthDate clientData),
             c_gender := spread (c_gender client) (pc_gender clientData),
             c_profileImage := spread (c_profileImage client) (pc_profileImage clientData),
             c_height := spread (c_height client) (pc_height clientData),
             c_startingWeight := spread (c_startingWeight client) (pc_startingWeight clientData),
             c_targetWeight := spread (c_targetWeight client) (pc_targetWeight clientData),
             c_activityLevel := spread (c_activityLevel client) (pc_activityLevel clientData),
             c_medicalHistory := spread (c_medicalHistory client) (pc_medicalHistory clientData),
             c_dietaryRestrictions :=
               spread (c_dietaryRestrictions client) (pc_dietaryRestrictions clientData),
             c_telegramChatId := spread (c_telegramChatId client) (pc_telegramChatId clientData),
             c_notes := spread (c_notes client) (pc_notes clientData),
             c_isActive := spread (c_isActive client) (pc_isActive clientData),
             c_createdAt := spread (c_createdAt client) (pc_createdAt clientData) \<rparr>"

definition updateClient ::
  "int \<Rightarrow> PartialInsertClient \<Rightarrow> MemStorage \<Rightarrow> Client option \<times> MemStorage" where
  "updateClient i clientData s =
     (case Map_get (clients s) i of
        None \<Rightarrow> (None, s)
      | Some client \<Rightarrow>
          (let updatedClient = merge_Client client clientData
           in (Some updatedClient, s\<lparr> clients := Map_set i updatedClient (clients s) \<rparr>)))"

definition deleteClient :: "int \<Rightarrow> MemStorage \<Rightarrow> bool \<times> MemStorage" where
  "deleteClient i s =
     (let (found, m) = Map_delete i (clients s) in (found, s\<lparr> clients := m \<rparr>))"

text \<open>Measurement methods.\<close>

definition getMeasurementsForClient :: "Measurement engine_order \<Rightarrow> MemStorage \<Rightarrow> int \<Rightarrow> Measurement list" where
  "getMeasurementsForClient engine s clientId =
     (let results = collect (\<lambda>measurement. m_clientId measurement = clientId)
                      (Map_values (measurements s)) []
      in Array_sort engine (\<lambda>a b. case (getTime (m_date b), getTime (m_date a)) of
                              (Some tb, Some ta) \<Rightarrow> Some (tb - ta)
                            | _ \<Rightarrow> None) results)"

definition getMeasurement :: "MemStorage \<Rightarrow> int \<Rightarrow> Measurement option" where
  "getMeasurement s i = Map_get (measurements s) i"

definition createMeasurement ::
  "int \<Rightarrow> InsertMeasurement \<Rightarrow> MemStorage \<Rightarrow> Measurement \<times> MemStorage" where
  "createMeasurement now measurementData s =
     (let i = measurementIdCounter s;
          measurement = \<lparr> m_id = i, m_clientId = im_clientId measurementData,
                          m_date = im_date measurementData,
                          m_weight = im_weight measurementData,
                          m_chest = im_chest measurementData,
                          m_waist = im_waist measurementData,
                          m_hip = im_hip measurementData, m_arm = im_arm measurementData,
                          m_thigh = im_thigh measurementData,
                          m_bodyFatPercentage = im_bodyFatPercentage measurementData,
                          m_notes = im_notes measurementData \<rparr>;
          s1 = s\<lparr> measurementIdCounter := i + 1,
                  measurements := Map_set i measurement (measurements s) \<rparr>
      in case Map_get (clients s1) (im_clientId measurementData) of
           Some client \<Rightarrow>
             (let (activity, s2) = createActivity now
                    \<lparr> iact_userId = c_userId client,
                      iact_clientId = Some (im_clientId measurementData),
                      iact_type = ''measurement'',
                      iact_description =
                        ''Yeni '' @ [CHR 0xC3, CHR 0xB6] @ ''l''
                        @ [CHR 0xC3, CHR 0xA7, CHR 0xC3, CHR 0xBC] @ ''m kaydedildi: ''
                        @ c_fullName client @ '' i'' @ [CHR 0xC3, CHR 0xA7] @ ''in'' \<rparr> s1
              in (measurement, s2))
         | None \<Rightarrow> (measurement, s1))"

definition merge_Measurement :: "Measurement \<Rightarrow> PartialInsertMeasurement \<Rightarrow> Measurement" where
  "merge_Measurement measurement measurementData =
     measurement\<lparr> m_id := spread (m_id measurement) (pm_id measurementData),
                  m_clientId := spread (m_clientId measurement) (pm_clientId measurementData),
                  m_date := spread (m_date measurement) (pm_date measurementData),
                  m_weight := spread (m_weight measurement) (pm_weight measurementData),
                  m_chest := spread (m_chest measurement) (pm_chest measurementData),
                  m_waist := spread (m_waist measurement) (pm_waist measurementData),
                  m_hip := spread (m_hip measurement) (pm_hip measurementData),
                  m_arm := spread (m_arm measurement) (pm_arm measurementData),
                  m_thigh := spread (m_thigh measurement) (pm_thigh measurementData),
                  m_bodyFatPercentage :=
                    spread (m_bodyFatPercentage measurement)
                      (pm_bodyFatPercentage measurementData),
                  m_notes := spread (m_notes measurement) (pm_notes measurementData) \<rparr>"

definition updateMeasurement ::
  "int \<Rightarrow> PartialInsertMeasurement \<Rightarrow> MemStorage \<Rightarrow> Measurement option \<times> MemStorage" where
  "updateMeasurement i measurementData s =
     (case Map_get (measurements s) i of
        None \<Rightarrow> (None, s)
      | Some measurement \<Rightarrow>
          (let updatedMeasurement = merge_Measurement measurement measurementData
           in (Some updatedMeasurement,
               s\<lparr> measurements := Map_set i updatedMeasurement (measurements s) \<rparr>)))"

definition deleteMeasurement :: "int \<Rightarrow> MemStorage \<Rightarrow> bool \<times> MemStorage" where
  "deleteMeasurement i s =
     (let (found, m) = Map_delete i (measurements s) in (found, s\<lparr> measurements := m \<rparr>))"


text \<open>DietPlan methods.\<close>

definition unknown_client :: string where
  "unknown_client = ''Bilinmeyen Dan'' @ [CHR 0xC4, CHR 0xB1, CHR 0xC5, CHR 0x9F] @ ''an''"

definition getDietPlansForUser :: "MemStorage \<Rightarrow> int \<Rightarrow> DietPlan list" where
  "getDietPlansForUser s userId =
     collect (\<lambda>dietPlan. d_userId dietPlan = userId) (Map_values (dietPlans s)) []"

definition getDietPlansForClient :: "DietPlan engine_order \<Rightarrow> MemStorage \<Rightarrow> int \<Rightarrow> DietPlan list" where
  "getDietPlansForClient engine s clientId =
     (let results = collect (\<lambda>dietPlan. d_clientId dietPlan = clientId)
                      (Map_values (dietPlans s)) []
      in Array_sort engine (\<lambda>a b. Some (d_createdAt b - d_createdAt a)) results)"

definition getDietPlan :: "MemStorage \<Rightarrow> int \<Rightarrow> DietPlan option" where
  "getDietPlan s i = Map_get (dietPlans s) i"

definition createDietPlan ::
  "int \<Rightarrow> int \<Rightarrow> InsertDietPlan \<Rightarrow> MemStorage \<Rightarrow> DietPlan \<times> MemStorage" where
  "createDietPlan now now' dietPlanData s =
     (let i = dietPlanIdCounter s;
          dietPlan = \<lparr> d_id = i, d_userId = idp_userId dietPlanData,
                       d_clientId = idp_clientId dietPlanData,
                       d_name = idp_name dietPlanData,
                       d_description = idp_description dietPlanData,
                       d_startDate = idp_startDate dietPlanData,
                       d_endDate = idp_endDate dietPlanData,
                       d_dailyCalories = idp_dailyCalories dietPlanData,
                       d_macroProtein = idp_macroProtein dietPlanData,
                       d_macroCarbs = idp_macroCarbs dietPlanData,
                       d_macroFat = idp_macroFat dietPlanData,
                       d_meals = idp_meals dietPlanData,
                       d_isActive = idp_isActive dietPlanData, d_createdAt = now \<rparr>;
          s1 = s\<lparr> dietPlanIdCounter := i + 1,
                  dietPlans := Map_set i dietPlan (dietPlans s) \<rparr>;
          clientName = (case Map_get (clients s1) (idp_clientId dietPlanData) of
                          Some client \<Rightarrow> c_fullName client
                        | None \<Rightarrow> unknown_client);
          (activity, s2) = createActivity now'
             \<lparr> iact_userId = idp_userId dietPlanData,
               iact_clientId = Some (idp_clientId dietPlanData),
               iact_type = ''diet_plan'',
               iact_description =
                 ''Yeni diyet plan'' @ [CHR 0xC4, CHR 0xB1] @ '' olu'' @ [CHR 0xC5, CHR 0x9F]
                 @ ''turuldu: '' @ clientName @ '' i'' @ [CHR 0xC3, CHR 0xA7] @ ''in ''
                 @ idp_name dietPlanData \<rparr> s1
      in (dietPlan, s2))"

definition merge_DietPlan :: "DietPlan \<Rightarrow> PartialInsertDietPlan \<Rightarrow> DietPlan" where
  "merge_DietPlan dietPlan dietPlanData =
     dietPlan\<lparr> d_id := spread (d_id dietPlan) (pdp_id dietPlanData),
               d_userId := spread (d_userId dietPlan) (pdp_userId dietPlanData),
               d_clientId := spread (d_clientId dietPlan) (pdp_clientId dietPlanData),
               d_name := spread (d_name dietPlan) (pdp_name dietPlanData),
               d_description := spread (d_description dietPlan) (pdp_description dietPlanData),
               d_startDate := spread (d_startDate dietPlan) (pdp_startDate dietPlanData),
               d_endDate := spread (d_endDate dietPlan) (pdp_endDate dietPlanData),
               d_dailyCalories :=
                 spread (d_dailyCalories dietPlan) (pdp_dailyCalories dietPlanData),
               d_macroProtein := spread (d_macroProtein dietPlan) (pdp_macroProtein dietPlanData),
               d_macroCarbs := spread (d_macroCarbs dietPlan) (pdp_macroCarbs dietPlanData),
               d_macroFat := spread (d_macroFat dietPlan) (pdp_macroFat dietPlanData),
               d_meals := spread (d_meals dietPlan) (pdp_meals dietPlanData),
               d_isActive := spread (d_isActive dietPlan) (pdp_isActive dietPlanData),
               d_createdAt := spread (d_createdAt dietPlan) (pdp_createdAt dietPlanData) \<rparr>"

definition updateDietPlan ::
  "int \<Rightarrow> PartialInsertDietPlan \<Rightarrow> MemStorage \<Rightarrow> DietPlan option \<times> MemStorage" where
  "updateDietPlan i dietPlanData s =
     (case Map_get (dietPlans s) i of
        None \<Rightarrow> (None, s)
      | Some dietPlan \<Rightarrow>
          (let updatedDietPlan = merge_DietPlan dietPlan dietPlanData
           in (Some updatedDietPlan,
               s\<lparr> dietPlans := Map_set i updatedDietPlan (dietPlans s) \<rparr>)))"

definition deleteDietPlan :: "int \<Rightarrow> MemStorage \<Rightarrow> bool \<times> MemStorage" where
  "deleteDietPlan i s =
     (let (found, m) = Map_delete i (dietPlans s) in (found, s\<lparr> dietPlans := m \<rparr>))"

text \<open>Appointment methods. \<open>toLocaleDateString('tr-TR')\<close> is a parameter.\<close>

definition getAppointmentsForUser :: "Appointment engine_order \<Rightarrow> MemStorage \<Rightarrow> int \<Rightarrow> Appointment list" where
  "getAppointmentsForUser engine s userId =
     (let results = collect (\<lambda>appointment. a_userId appointment = userId)
                      (Map_values (appointments s)) []
      in Array_sort engine (\<lambda>a b. Some (a_date a - a_date b)) results)"

definition getAppointmentsForClient :: "Appointment engine_order \<Rightarrow> MemStorage \<Rightarrow> int \<Rightarrow> Appointment list" where
  "getAppointmentsForClient engine s clientId =
     (let results = collect (\<lambda>appointment. a_clientId appointment = clientId)
                      (Map_values (appointments s)) []
      in Array_sort engine (\<lambda>a b. Some (a_date a - a_date b)) results)"

definition getAppointment :: "MemStorage \<Rightarrow> int \<Rightarrow> Appointment option" where
  "getAppointment s i = Map_get (appointments s) i"

definition createAppointment ::
  "(int \<Rightarrow> string) \<Rightarrow> int \<Rightarrow> int \<Rightarrow> InsertAppointment \<Rightarrow> MemStorage
     \<Rightarrow> Appointment \<times> MemStorage" where
  "createAppointment toLocaleDateString now now' appointmentData s =
     (let i = appointmentIdCounter s;
          appointment = \<lparr> a_id = i, a_userId = ia_userId appointmentData,
                          a_clientId = ia_clientId appointmentData,
                          a_date = ia_date appointmentData,
                          a_duration = ia_duration appointmentData,
                          a_type = ia_type appointmentData,
                          a_notes = ia_notes appointmentData,
                          a_status = ia_status appointmentData, a_createdAt = now \<rparr>;
          s1 = s\<lparr> appointmentIdCounter := i + 1,
                  appointments := Map_set i appointment (appointments s) \<rparr>;
          clientName = (case Map_get (clients s1) (ia_clientId appointmentData) of
                          Some client \<Rightarrow> c_fullName client
                        | None \<Rightarrow> unknown_client);
          (activity, s2) = createActivity now'
             \<lparr> iact_userId = ia_userId appointmentData,
               iact_clientId = Some (ia_clientId appointmentData),
               iact_type = ''appointment'',
               iact_description =
                 ''Yeni randevu olu'' @ [CHR 0xC5, CHR 0x9F] @ ''turuldu: '' @ clientName
                 @ '' ile '' @ toLocaleDateString (ia_date appointmentData) \<rparr> s1
      in (appointment, s2))"

definition merge_Appointment :: "Appointment \<Rightarrow> PartialInsertAppointment \<Rightarrow> Appointment" where
  "merge_Appointment appointment appointmentData =
     appointment\<lparr> a_id := spread (a_id appointment) (pa_id appointmentData),
                  a_userId := spread (a_userId appointment) (pa_userId appointmentData),
                  a_clientId := spread (a_clientId appointment) (pa_clientId appointmentData),
                  a_date := spread (a_date appointment) (pa_date appointmentData),
                  a_duration := spread (a_duration appointment) (pa_duration appointmentData),
                  a_type := spread (a_type appointment) (pa_type appointmentData),
                  a_notes := spread (a_notes appointment) (pa_notes appointmentData),
                  a_status := spread (a_status appointment) (pa_status appointmentData),
                  a_createdAt :=
                    spread (a_createdAt appointment) (pa_createdAt appointmentData) \<rparr>"

definition updateAppointment ::
  "int \<Rightarrow> PartialInsertAppointment \<Rightarrow> MemStorage \<Rightarrow> Appointment option \<times> MemStorage" where
  "updateAppointment i appointmentData s =
     (case Map_get (appointments s) i of
        None \<Rightarrow> (None, s)
      | Some appointment \<Rightarrow>
          (let updatedAppointment = merge_Appointment appointment appointmentData
           in (Some updatedAppointment,
               s\<lparr> appointments := Map_set i updatedAppointment (appointments s) \<rparr>)))"

definition deleteAppointment :: "int \<Rightarrow> MemStorage \<Rightarrow> bool \<times> MemStorage" where
  "deleteAppointment i s =
     (let (found, m) = Map_delete i (appointments s) in (found, s\<lparr> appointments := m \<rparr>))"

text \<open>Blog methods.\<close>

definition getBlogArticles :: "BlogArticle engine_order \<Rightarrow> MemStorage \<Rightarrow> int option \<Rightarrow> BlogArticle list" where
  "getBlogArticles engine s limit =
     (let articles = Map_values (blogArticles s);
          sorted_list =
            Array_sort engine (\<lambda>a b. Some (b_publishedAt b - b_publishedAt a)) articles
      in apply_limit limit sorted_list)"

definition getBlogArticle :: "MemStorage \<Rightarrow> int \<Rightarrow> BlogArticle option" where
  "getBlogArticle s i = Map_get (blogArticles s) i"

definition createBlogArticle ::
  "int \<Rightarrow> InsertBlogArticle \<Rightarrow> MemStorage \<Rightarrow> BlogArticle \<times> MemStorage" where
  "createBlogArticle now articleData s =
     (let i = blogArticleIdCounter s;
          article = \<lparr> b_id = i, b_title = ib_title articleData,
                      b_summary = ib_summary articleData,
                      b_content = ib_content articleData, b_author = ib_author articleData,
                      b_imageUrl = ib_imageUrl articleData,
                      b_readTime = ib_readTime articleData, b_publishedAt = now \<rparr>
      in (article, s\<lparr> blogArticleIdCounter := i + 1,
                       blogArticles := Map_set i article (blogArticles s) \<rparr>))"

text \<open>The constructor: empty maps, counters at 1, then the three initial articles.\<close>

definition empty_storage :: MemStorage where
  "empty_storage =
     \<lparr> users = [], clients = [], measurements = [], dietPlans = [], appointments = [],
       activities = [], blogArticles = [],
       userIdCounter = 1, clientIdCounter = 1, measurementIdCounter = 1,
       dietPlanIdCounter = 1, appointmentIdCounter = 1, activityIdCounter = 1,
       blogArticleIdCounter = 1 \<rparr>"

definition initial_articles :: "InsertBlogArticle list" where
  "initial_articles =
     [ \<lparr> ib_title = ''Kilo Vermede Sa'' @ [CHR 0xC4, CHR 0x9F] @ ''l'' @ [CHR 0xC4, CHR 0xB1]
           @ ''kl'' @ [CHR 0xC4, CHR 0xB1] @ '' Beslenmenin '' @ [CHR 0xC3, CHR 0x96] @ ''nemi'',
         ib_summary = ''Sa'' @ [CHR 0xC4, CHR 0x9F] @ ''l'' @ [CHR 0xC4, CHR 0xB1] @ ''kl''
           @ [CHR 0xC4, CHR 0xB1] @ '' ve dengeli beslenme al''
           @ [CHR 0xC4, CHR 0xB1, CHR 0xC5, CHR 0x9F] @ ''kanl'' @ [CHR 0xC4, CHR 0xB1]
           @ ''klar'' @ [CHR 0xC4, CHR 0xB1] @ '' edinmek, kilo vermenin en ''
           @ [CHR 0xC3, CHR 0xB6] @ ''nemli ad'' @ [CHR 0xC4, CHR 0xB1] @ ''m''
           @ [CHR 0xC4, CHR 0xB1] @ ''d'' @ [CHR 0xC4, CHR 0xB1] @ ''r...'',
         ib_content = ''Detayl'' @ [CHR 0xC4, CHR 0xB1] @ '' i'' @ [CHR 0xC3, CHR 0xA7]
           @ ''erik burada yer alacak'',
         ib_author = ''Prof. Dr. Ay'' @ [CHR 0xC5, CHR 0x9F] @ ''e Y'' @ [CHR 0xC4, CHR 0xB1]
           @ ''lmaz'',
         ib_imageUrl = Some (''https://images.unsplash.com/photo-1490645935967-10de6ba17061''
           @ ''?ixlib=rb-1.2.1&auto=format&fit=crop&w=800&q=80''),
         ib_readTime = Some 8 \<rparr>,
       \<lparr> ib_title = ''D'' @ [CHR 0xC3, CHR 0xBC] @ ''zenli Egzersizin Metabolizma ''
           @ [CHR 0xC3, CHR 0x9C] @ ''zerindeki Etkileri'',
         ib_summary = ''D'' @ [CHR 0xC3, CHR 0xBC] @ ''zenli fiziksel aktivite, metabolizmay''
           @ [CHR 0xC4, CHR 0xB1] @ '' h'' @ [CHR 0xC4, CHR 0xB1] @ ''zland''
           @ [CHR 0xC4, CHR 0xB1] @ ''rarak kalori yak'' @ [CHR 0xC4, CHR 0xB1] @ ''m''
           @ [CHR 0xC4, CHR 0xB1] @ ''n'' @ [CHR 0xC4, CHR 0xB1] @ '' art''
           @ [CHR 0xC4, CHR 0xB1] @ ''r'' @ [CHR 0xC4, CHR 0xB1] @ ''r...'',
         ib_content = ''Detayl'' @ [CHR 0xC4, CHR 0xB1] @ '' i'' @ [CHR 0xC3, CHR 0xA7]
           @ ''erik burada yer alacak'',
         ib_author = ''Uzm. Dyt. Mehmet Demir'',
         ib_imageUrl = Some (''https://images.unsplash.com/photo-1517836357463-d25dfeac3438''
           @ ''?ixlib=rb-1.2.1&auto=format&fit=crop&w=800&q=80''),
         ib_readTime = Some 6 \<rparr>,
       \<lparr> ib_title = ''Mevsimsel Besinlerin Sa'' @ [CHR 0xC4, CHR 0x9F] @ ''l''
           @ [CHR 0xC4, CHR 0xB1] @ ''k '' @ [CHR 0xC3, CHR 0x9C]
           @ ''zerindeki Olumlu Etkileri'',
         ib_summary = ''Mevsiminde t'' @ [CHR 0xC3, CHR 0xBC]
           @ ''ketilen sebze ve meyveler, hem besin de'' @ [CHR 0xC4, CHR 0x9F] @ ''eri a''
           @ [CHR 0xC3, CHR 0xA7, CHR 0xC4, CHR 0xB1] @ ''s'' @ [CHR 0xC4, CHR 0xB1]
           @ ''ndan daha zengindir...'',
         ib_content = ''Detayl'' @ [CHR 0xC4, CHR 0xB1] @ '' i'' @ [CHR 0xC3, CHR 0xA7]
           @ ''erik burada yer alacak'',
         ib_author = ''Dyt. Zeynep Kaya'',
         ib_imageUrl = Some (''https://images.unsplash.com/photo-1512621776951-a57141f2eefd''
           @ ''?ixlib=rb-1.2.1&auto=format&fit=crop&w=800&q=80''),
         ib_readTime = Some 5 \<rparr> ]"

text \<open>\<open>articles.forEach(article => this.createBlogArticle(article))\<close>, one clock reading
  per article.\<close>

fun addInitialBlogArticles ::
  "(int \<times> InsertBlogArticle) list \<Rightarrow> MemStorage \<Rightarrow> MemStorage" where
  "addInitialBlogArticles [] s = s"
| "addInitialBlogArticles ((now, article) # rest) s =
     addInitialBlogArticles rest (snd (createBlogArticle now article s))"

definition new_MemStorage :: "int \<Rightarrow> int \<Rightarrow> int \<Rightarrow> MemStorage" where
  "new_MemStorage t1 t2 t3 =
     addInitialBlogArticles (zip [t1, t2, t3] initial_articles) empty_storage"


section \<open>The request handlers (server/routes.ts)\<close>

text \<open>
  A handler takes what the request carries after \<open>authenticate\<close> and \<open>parseInt\<close>
  (\<open>None\<close> for \<open>NaN\<close>) and returns the response with the store it leaves.
  \<open>bcrypt.compare\<close> and \<open>jwt.sign\<close> are parameters. A field of a JSON body is absent,
  null, a string, or some other value. The only exception raised inside these handlers is
  the \<open>ZodError\<close> of a schema, here the \<open>Inl\<close> result of the parse, which the handler
  answers with 400; no other call of theirs throws, so the final 500 branch of each
  \<open>catch\<close> has no counterpart.
\<close>

datatype field = Absent | Null | Str string | Other

record UserWithoutPassword =
  up_id :: int
  up_username :: string
  up_email :: string
  up_fullName :: string
  up_profileImage :: "string option"
  up_telegramToken :: "string option"
  up_telegramChatId :: "string option"
  up_createdAt :: int

definition withoutPassword :: "User \<Rightarrow> UserWithoutPassword" where
  "withoutPassword user =
     \<lparr> up_id = u_id user, up_username = u_username user, up_email = u_email user,
       up_fullName = u_fullName user, up_profileImage = u_profileImage user,
       up_telegramToken = u_telegramToken user,
       up_telegramChatId = u_telegramChatId user, up_createdAt = u_createdAt user \<rparr>"

text \<open>A response body: \<open>{message}\<close>, the message of a \<open>ZodError\<close> (given by the paths of
  its issues), a client, \<open>undefined\<close>, \<open>{user, token}\<close>, or nothing (\<open>send()\<close>).\<close>

datatype body =
    Message string
  | ValidationMessage "string list"
  | JsonClient Client
  | JsonUndefined
  | JsonAuth UserWithoutPassword string
  | NoBody

record Response =
  status :: int
  body :: body

record LoginBody =
  lb_username :: field
  lb_password :: field

text \<open>\<open>z.string().min(1)\<close>.\<close>

definition nonempty_string :: "field \<Rightarrow> bool" where
  "nonempty_string f = (case f of Str v \<Rightarrow> v \<noteq> [] | _ \<Rightarrow> False)"

definition required_string :: "field \<Rightarrow> bool" where
  "required_string f = (case f of Str v \<Rightarrow> True | _ \<Rightarrow> False)"

definition optional_string :: "field \<Rightarrow> bool" where
  "optional_string f = (case f of Other \<Rightarrow> False | _ \<Rightarrow> True)"

definition string_of :: "field \<Rightarrow> string" where
  "string_of f = (case f of Str v \<Rightarrow> v | _ \<Rightarrow> [])"

definition nullable_of :: "field \<Rightarrow> string option" where
  "nullable_of f = (case f of Str v \<Rightarrow> Some v | _ \<Rightarrow> None)"

definition issues :: "(string \<times> bool) list \<Rightarrow> string list" where
  "issues checks = map fst (filter (\<lambda>c. \<not> snd c) checks)"

definition loginSchema_parse :: "LoginBody \<Rightarrow> string list + (string \<times> string)" where
  "loginSchema_parse b =
     (let errs = issues [(''username'', nonempty_string (lb_username b)),
                         (''password'', nonempty_string (lb_password b))]
      in if errs = [] then Inr (string_of (lb_username b), string_of (lb_password b))
         else Inl errs)"

record RegisterBody =
  rb_username :: field
  rb_password :: field
  rb_email :: field
  rb_fullName :: field
  rb_profileImage :: field
  rb_telegramToken :: field
  rb_telegramChatId :: field

definition insertUserSchema_parse :: "RegisterBody \<Rightarrow> string list + InsertUser" where
  "insertUserSchema_parse b =
     (let errs = issues [(''username'', required_string (rb_username b)),
                         (''password'', required_string (rb_password b)),
                         (''email'', required_string (rb_email b)),
                         (''fullName'', required_string (rb_fullName b)),
                         (''profileImage'', optional_string (rb_profileImage b)),
                         (''telegramToken'', optional_string (rb_telegramToken b)),
                         (''telegramChatId'', optional_string (rb_telegramChatId b))]
      in if errs = []
         then Inr \<lparr> iu_username = string_of (rb_username b),
                    iu_password = string_of (rb_password b),
                    iu_email = string_of (rb_email b),
                    iu_fullName = string_of (rb_fullName b),
                    iu_profileImage = nullable_of (rb_profileImage b),
                    iu_telegramToken = nullable_of (rb_telegramToken b),
                    iu_telegramChatId = nullable_of (rb_telegramChatId b) \<rparr>
         else Inl errs)"

definition username_taken :: string where
  "username_taken = ''Bu kullan'' @ [CHR 0xC4, CHR 0xB1] @ ''c'' @ [CHR 0xC4, CHR 0xB1]
     @ '' ad'' @ [CHR 0xC4, CHR 0xB1] @ '' zaten kullan'' @ [CHR 0xC4, CHR 0xB1] @ ''l''
     @ [CHR 0xC4, CHR 0xB1] @ ''yor''"

definition invalid_credentials :: string where
  "invalid_credentials = ''Ge'' @ [CHR 0xC3, CHR 0xA7] @ ''ersiz kullan''
     @ [CHR 0xC4, CHR 0xB1] @ ''c'' @ [CHR 0xC4, CHR 0xB1] @ '' ad'' @ [CHR 0xC4, CHR 0xB1]
     @ '' veya '' @ [CHR 0xC5, CHR 0x9F] @ ''ifre''"

definition client_not_found :: string where
  "client_not_found = ''Dan'' @ [CHR 0xC4, CHR 0xB1, CHR 0xC5, CHR 0x9F] @ ''an bulunamad''
     @ [CHR 0xC4, CHR 0xB1]"

definition no_access :: string where
  "no_access = ''Bu dan'' @ [CHR 0xC4, CHR 0xB1, CHR 0xC5, CHR 0x9F] @ ''ana eri''
     @ [CHR 0xC5, CHR 0x9F] @ ''im izniniz yok''"

definition no_update :: string where
  "no_update = ''Bu dan'' @ [CHR 0xC4, CHR 0xB1, CHR 0xC5, CHR 0x9F] @ ''an''
     @ [CHR 0xC4, CHR 0xB1] @ '' g'' @ [CHR 0xC3, CHR 0xBC] @ ''ncelleme izniniz yok''"

definition no_delete :: string where
  "no_delete = ''Bu dan'' @ [CHR 0xC4, CHR 0xB1, CHR 0xC5, CHR 0x9F] @ ''an''
     @ [CHR 0xC4, CHR 0xB1] @ '' silme izniniz yok''"

text \<open>POST /api/auth/register\<close>

definition register ::
  "(string \<Rightarrow> string) \<Rightarrow> (int \<Rightarrow> string \<Rightarrow> string) \<Rightarrow> int \<Rightarrow> RegisterBody \<Rightarrow> MemStorage
     \<Rightarrow> Response \<times> MemStorage" where
  "register bcrypt_hash jwt_sign now req_body s =
     (case insertUserSchema_parse req_body of
        Inl errs \<Rightarrow> (\<lparr> status = 400, body = ValidationMessage errs \<rparr>, s)
      | Inr userData \<Rightarrow>
          (case getUserByUsername s (iu_username userData) of
             Some existingUser \<Rightarrow> (\<lparr> status = 400, body = Message username_taken \<rparr>, s)
           | None \<Rightarrow>
               (let (user, s') = createUser bcrypt_hash now userData s;
                    token = jwt_sign (u_id user) (u_username user)
                in (\<lparr> status = 201, body = JsonAuth (withoutPassword user) token \<rparr>, s'))))"

text \<open>POST /api/auth/login\<close>

definition login ::
  "(string \<Rightarrow> string \<Rightarrow> bool) \<Rightarrow> (int \<Rightarrow> string \<Rightarrow> string) \<Rightarrow> LoginBody \<Rightarrow> MemStorage
     \<Rightarrow> Response" where
  "login bcrypt_compare jwt_sign req_body s =
     (case loginSchema_parse req_body of
        Inl errs \<Rightarrow> \<lparr> status = 400, body = ValidationMessage errs \<rparr>
      | Inr (username, password) \<Rightarrow>
          (case getUserByUsername s username of
             None \<Rightarrow> \<lparr> status = 401, body = Message invalid_credentials \<rparr>
           | Some user \<Rightarrow>
               if \<not> bcrypt_compare password (u_password user)
               then \<lparr> status = 401, body = Message invalid_credentials \<rparr>
               else \<lparr> status = 200,
                      body = JsonAuth (withoutPassword user)
                               (jwt_sign (u_id user) (u_username user)) \<rparr>))"

text \<open>\<open>storage.getClient(parseInt(req.params.id))\<close>: no key of the map is \<open>NaN\<close>, so
  \<open>Map.get(NaN)\<close> is \<open>undefined\<close>.\<close>

text \<open>GET /api/clients/:id\<close>

definition get_client :: "int \<Rightarrow> int option \<Rightarrow> MemStorage \<Rightarrow> Response \<times> MemStorage" where
  "get_client userId i s =
     (case (case i of None \<Rightarrow> None | Some n \<Rightarrow> getClient s n) of
        None \<Rightarrow> (\<lparr> status = 404, body = Message client_not_found \<rparr>, s)
      | Some client \<Rightarrow>
          if c_userId client \<noteq> userId
          then (\<lparr> status = 403, body = Message no_access \<rparr>, s)
          else (\<lparr> status = 200, body = JsonClient client \<rparr>, s))"

text \<open>PUT /api/clients/:id\<close>

definition put_client ::
  "int \<Rightarrow> int option \<Rightarrow> PartialInsertClient \<Rightarrow> MemStorage \<Rightarrow> Response \<times> MemStorage" where
  "put_client userId i req_body s =
     (case i of
        None \<Rightarrow> (\<lparr> status = 404, body = Message client_not_found \<rparr>, s)
      | Some n \<Rightarrow>
          (case getClient s n of
             None \<Rightarrow> (\<lparr> status = 404, body = Message client_not_found \<rparr>, s)
           | Some client \<Rightarrow>
               if c_userId client \<noteq> userId
               then (\<lparr> status = 403, body = Message no_update \<rparr>, s)
               else (case updateClient n req_body s of
                       (Some updatedClient, s') \<Rightarrow>
                          (\<lparr> status = 200, body = JsonClient updatedClient \<rparr>, s')
                     | (None, s') \<Rightarrow> (\<lparr> status = 200, body = JsonUndefined \<rparr>, s'))))"

text \<open>DELETE /api/clients/:id\<close>

definition delete_client :: "int \<Rightarrow> int option \<Rightarrow> MemStorage \<Rightarrow> Response \<times> MemStorage" where
  "delete_client userId i s =
     (case i of
        None \<Rightarrow> (\<lparr> status = 404, body = Message client_not_found \<rparr>, s)
      | Some n \<Rightarrow>
          (case getClient s n of
             None \<Rightarrow> (\<lparr> status = 404, body = Message client_not_found \<rparr>, s)
           | Some client \<Rightarrow>
               if c_userId client \<noteq> userId
               then (\<lparr> status = 403, body = Message no_delete \<rparr>, s)
               else (\<lparr> status = 204, body = NoBody \<rparr>, snd (deleteClient n s))))"

section \<open>Runs of the store\<close>

text \<open>The mutating methods, with the clock readings each one takes.\<close>

datatype op =
    CreateUser int InsertUser
  | CreateClient int int InsertClient
  | UpdateClient int PartialInsertClient
  | DeleteClient int
  | CreateMeasurement int InsertMeasurement
  | UpdateMeasurement int PartialInsertMeasurement
  | DeleteMeasurement int
  | CreateDietPlan int int InsertDietPlan
  | UpdateDietPlan int PartialInsertDietPlan
  | DeleteDietPlan int
  | CreateAppointment int int InsertAppointment
  | UpdateAppointment int PartialInsertAppointment
  | DeleteAppointment int
  | CreateActivity int InsertActivity
  | CreateBlogArticle int InsertBlogArticle

fun step :: "(string \<Rightarrow> string) \<Rightarrow> (int \<Rightarrow> string) \<Rightarrow> op \<Rightarrow> MemStorage \<Rightarrow> MemStorage" where
  "step h f (CreateUser now d) s = snd (createUser h now d s)"
| "step h f (CreateClient now now' d) s = snd (createClient now now' d s)"
| "step h f (UpdateClient i d) s = snd (updateClient i d s)"
| "step h f (DeleteClient i) s = snd (deleteClient i s)"
| "step h f (CreateMeasurement now d) s = snd (createMeasurement now d s)"
| "step h f (UpdateMeasurement i d) s = snd (updateMeasurement i d s)"
| "step h f (DeleteMeasurement i) s = snd (deleteMeasurement i s)"
| "step h f (CreateDietPlan now now' d) s = snd (createDietPlan now now' d s)"
| "step h f (UpdateDietPlan i d) s = snd (updateDietPlan i d s)"
| "step h f (DeleteDietPlan i) s = snd (deleteDietPlan i s)"
| "step h f (CreateAppointment now now' d) s = snd (createAppointment f now now' d s)"
| "step h f (UpdateAppointment i d) s = snd (updateAppointment i d s)"
| "step h f (DeleteAppointment i) s = snd (deleteAppointment i s)"
| "step h f (CreateActivity now d) s = snd (createActivity now d s)"
| "step h f (CreateBlogArticle now d) s = snd (createBlogArticle now d s)"

fun run :: "(string \<Rightarrow> string) \<Rightarrow> (int \<Rightarrow> string) \<Rightarrow> op list \<Rightarrow> MemStorage \<Rightarrow> MemStorage" where
  "run h f [] s = s"
| "run h f (x # xs) s = run h f xs (step h f x s)"

datatype kind = KUser | KClient | KMeasurement | KDietPlan | KAppointment | KActivity
  | KBlogArticle

fun keys :: "kind \<Rightarrow> MemStorage \<Rightarrow> int list" where
  "keys KUser s = map fst (users s)"
| "keys KClient s = map fst (clients s)"
| "keys KMeasurement s = map fst (measurements s)"
| "keys KDietPlan s = map fst (dietPlans s)"
| "keys KAppointment s = map fst (appointments s)"
| "keys KActivity s = map fst (activities s)"
| "keys KBlogArticle s = map fst (blogArticles s)"

fun counter :: "kind \<Rightarrow> MemStorage \<Rightarrow> int" where
  "counter KUser s = userIdCounter s"
| "counter KClient s = clientIdCounter s"
| "counter KMeasurement s = measurementIdCounter s"
| "counter KDietPlan s = dietPlanIdCounter s"
| "counter KAppointment s = appointmentIdCounter s"
| "counter KActivity s = activityIdCounter s"
| "counter KBlogArticle s = blogArticleIdCounter s"

text \<open>The identifiers a step assigns: the keys that are in a map after it and were not
  there before; over a run, in the order of the steps.\<close>

definition assigned :: "kind \<Rightarrow> MemStorage \<Rightarrow> MemStorage \<Rightarrow> int list" where
  "assigned K s s' = filter (\<lambda>k. k \<notin> set (keys K s)) (keys K s')"

fun assigned_run ::
  "(string \<Rightarrow> string) \<Rightarrow> (int \<Rightarrow> string) \<Rightarrow> kind \<Rightarrow> op list \<Rightarrow> MemStorage \<Rightarrow> int list" where
  "assigned_run h f K [] s = []"
| "assigned_run h f K (x # xs) s =
     assigned K s (step h f x s) @ assigned_run h f K xs (step h f x s)"

text \<open>The identifier of the entity a creating step returns, with its type; and over a
  run, the identifiers returned for one type, in the order of the steps.\<close>

fun returned ::
  "(string \<Rightarrow> string) \<Rightarrow> (int \<Rightarrow> string) \<Rightarrow> op \<Rightarrow> MemStorage \<Rightarrow> (kind \<times> int) list" where
  "returned h f (CreateUser now d) s = [(KUser, u_id (fst (createUser h now d s)))]"
| "returned h f (CreateClient now now' d) s =
     [(KClient, c_id (fst (createClient now now' d s)))]"
| "returned h f (CreateMeasurement now d) s =
     [(KMeasurement, m_id (fst (createMeasurement now d s)))]"
| "returned h f (CreateDietPlan now now' d) s =
     [(KDietPlan, d_id (fst (createDietPlan now now' d s)))]"
| "returned h f (CreateAppointment now now' d) s =
     [(KAppointment, a_id (fst (createAppointment f now now' d s)))]"
| "returned h f (CreateActivity now d) s = [(KActivity, act_id (fst (createActivity now d s)))]"
| "returned h f (CreateBlogArticle now d) s =
     [(KBlogArticle, b_id (fst (createBlogArticle now d s)))]"
| "returned h f x s = []"

fun returned_run ::
  "(string \<Rightarrow> string) \<Rightarrow> (int \<Rightarrow> string) \<Rightarrow> kind \<Rightarrow> op list \<Rightarrow> MemStorage \<Rightarrow> int list" where
  "returned_run h f K [] s = []"
| "returned_run h f K (x # xs) s =
     map snd (filter (\<lambda>e. fst e = K) (returned h f x s))
     @ returned_run h f K xs (step h f x s)"

text \<open>An update whose object carries the key \<open>id\<close>.\<close>

fun rewrites_id :: "op \<Rightarrow> bool" where
  "rewrites_id (UpdateClient i d) = (pc_id d \<noteq> None)"
| "rewrites_id (UpdateMeasurement i d) = (pm_id d \<noteq> None)"
| "rewrites_id (UpdateDietPlan i d) = (pdp_id d \<noteq> None)"
| "rewrites_id (UpdateAppointment i d) = (pa_id d \<noteq> None)"
| "rewrites_id x = False"

text \<open>What every store built by the constructor and the methods satisfies: in each map the
  keys ascend and lie below the counter.\<close>

definition keys_ok :: "int \<Rightarrow> 'v jsmap \<Rightarrow> bool" where
  "keys_ok n m = (sorted_wrt (<) (map fst m) \<and> (\<forall>k \<in> set (map fst m). k < n))"

definition keys_inv :: "MemStorage \<Rightarrow> bool" where
  "keys_inv s =
     (keys_ok (userIdCounter s) (users s) \<and>
      keys_ok (clientIdCounter s) (clients s) \<and>
      keys_ok (measurementIdCounter s) (measurements s) \<and>
      keys_ok (dietPlanIdCounter s) (dietPlans s) \<and>
      keys_ok (appointmentIdCounter s) (appointments s) \<and>
      keys_ok (activityIdCounter s) (activities s) \<and>
      keys_ok (blogArticleIdCounter s) (blogArticles s))"

text \<open>What it satisfies as long as no update has carried the key \<open>id\<close>: moreover each
  entity carries its key as its id.\<close>

definition ok_map :: "('v \<Rightarrow> int) \<Rightarrow> int \<Rightarrow> 'v jsmap \<Rightarrow> bool" where
  "ok_map idf n m =
     (sorted_wrt (<) (map fst m) \<and> (\<forall>p \<in> set m. fst p < n \<and> idf (snd p) = fst p))"

definition inv :: "MemStorage \<Rightarrow> bool" where
  "inv s =
     (ok_map u_id (userIdCounter s) (users s) \<and>
      ok_map c_id (clientIdCounter s) (clients s) \<and>
      ok_map m_id (measurementIdCounter s) (measurements s) \<and>
      ok_map d_id (dietPlanIdCounter s) (dietPlans s) \<and>
      ok_map a_id (appointmentIdCounter s) (appointments s) \<and>
      ok_map act_id (activityIdCounter s) (activities s) \<and>
      ok_map b_id (blogArticleIdCounter s) (blogArticles s))"

section \<open>Auxiliary predicates and sample data\<close>

definition sample_client :: "int \<Rightarrow> string \<Rightarrow> InsertClient" where
  "sample_client userId fullName =
     \<lparr> ic_userId = userId, ic_fullName = fullName, ic_email = ''a@example.com'',
       ic_phone = ''555'', ic_birthDate = None, ic_gender = ''female'',
       ic_profileImage = None, ic_height = Some ''165'', ic_startingWeight = None,
       ic_targetWeight = None, ic_activityLevel = None, ic_medicalHistory = None,
       ic_dietaryRestrictions = None, ic_telegramChatId = None, ic_notes = None,
       ic_isActive = Some True \<rparr>"

definition sample_appointment :: "int \<Rightarrow> int \<Rightarrow> int \<Rightarrow> InsertAppointment" where
  "sample_appointment userId clientId date =
     \<lparr> ia_userId = userId, ia_clientId = clientId, ia_date = date, ia_duration = 30,
       ia_type = ''online'', ia_notes = None, ia_status = Some ''scheduled'' \<rparr>"

definition sample_dietPlan :: "int \<Rightarrow> int \<Rightarrow> string \<Rightarrow> InsertDietPlan" where
  "sample_dietPlan userId clientId name =
     \<lparr> idp_userId = userId, idp_clientId = clientId, idp_name = name,
       idp_description = None, idp_startDate = 1000, idp_endDate = None,
       idp_dailyCalories = Some ''1800'', idp_macroProtein = None, idp_macroCarbs = None,
       idp_macroFat = None, idp_meals = JArray [], idp_isActive = Some True \<rparr>"

definition format_date :: "int \<Rightarrow> string" where
  "format_date t = ''01.01.1970''"

text \<open>Three clients (two of user 1), a diet plan, and two appointments of user 1, the
  later-dated one created first.\<close>

definition listing_store :: MemStorage where
  "listing_store =
     run id format_date
       [CreateClient 10 10 (sample_client 1 ''Ayse''),
        CreateClient 11 11 (sample_client 2 ''Fatma''),
        CreateClient 12 12 (sample_client 1 ''Zeynep''),
        CreateDietPlan 13 13 (sample_dietPlan 1 1 ''Kilo Verme Diyeti''),
        CreateAppointment 14 14 (sample_appointment 1 1 200),
        CreateAppointment 15 15 (sample_appointment 1 3 100)]
       (new_MemStorage 0 0 0)"

text \<open>Two clients are created and deleted, then a third is created.\<close>

definition reuse_ops :: "op list" where
  "reuse_ops =
     [CreateClient 10 10 (sample_client 1 ''Ayse''),
      CreateClient 11 11 (sample_client 1 ''Fatma''),
      DeleteClient 2,
      DeleteClient 1,
      CreateClient 12 12 (sample_client 2 ''Zeynep'')]"

definition sample_measurement :: "int \<Rightarrow> date_field \<Rightarrow> InsertMeasurement" where
  "sample_measurement clientId date =
     \<lparr> im_clientId = clientId, im_date = date, im_weight = Some ''70.5'', im_chest = None,
       im_waist = None, im_hip = None, im_arm = None, im_thigh = None,
       im_bodyFatPercentage = None, im_notes = None \<rparr>"

text \<open>The time value of a measurement's date, for a measurement that has one.\<close>

definition date_time :: "Measurement \<Rightarrow> int" where
  "date_time m = (case getTime (m_date m) of Some t \<Rightarrow> t | None \<Rightarrow> 0)"


text \<open>Five clients of user 1, created in the same millisecond, and five created one
  millisecond apart; each creation records one activity.\<close>

definition tie_store :: MemStorage where
  "tie_store =
     run id format_date
       [CreateClient 1000 1000 (sample_client 1 ''A''),
        CreateClient 1000 1000 (sample_client 1 ''B''),
        CreateClient 1000 1000 (sample_client 1 ''C''),
        CreateClient 1000 1000 (sample_client 1 ''D''),
        CreateClient 1000 1000 (sample_client 1 ''E'')]
       (new_MemStorage 0 0 0)"

definition recent_store :: MemStorage where
  "recent_store =
     run id format_date
       [CreateClient 1000 1000 (sample_client 1 ''A''),
        CreateClient 1001 1001 (sample_client 1 ''B''),
        CreateClient 1002 1002 (sample_client 1 ''C''),
        CreateClient 1003 1003 (sample_client 1 ''D''),
        CreateClient 1004 1004 (sample_client 1 ''E'')]
       (new_MemStorage 0 0 0)"

text \<open>A client with three measurements, the second stored without a date; and one with
  three dated measurements created out of order.\<close>

definition undated_store :: MemStorage where
  "undated_store =
     run id format_date
       [CreateClient 1 1 (sample_client 1 ''Ayse''),
        CreateMeasurement 2 (sample_measurement 1 (DateValue 100)),
        CreateMeasurement 3 (sample_measurement 1 DateUndefined),
        CreateMeasurement 4 (sample_measurement 1 (DateValue 200))]
       (new_MemStorage 0 0 0)"

definition dated_store :: MemStorage where
  "dated_store =
     run id format_date
       [CreateClient 1 1 (sample_client 1 ''Ayse''),
        CreateMeasurement 2 (sample_measurement 1 (DateValue 200)),
        CreateMeasurement 3 (sample_measurement 1 (DateValue 100)),
        CreateMeasurement 4 (sample_measurement 1 (DateValue 300))]
       (new_MemStorage 0 0 0)"

text \<open>A partial client that sets the name and clears the notes.\<close>

definition rename :: PartialInsertClient where
  "rename =
     \<lparr> pc_id = None, pc_userId = None, pc_fullName = Some ''Ayse Yilmaz'', pc_email = None,
       pc_phone = None, pc_birthDate = None, pc_gender = None, pc_profileImage = None,
       pc_height = None, pc_startingWeight = None, pc_targetWeight = None,
       pc_activityLevel = None, pc_medicalHistory = None, pc_dietaryRestrictions = None,
       pc_telegramChatId = None, pc_notes = Some None, pc_isActive = None,
       pc_createdAt = None \<rparr>"

text \<open>What an update leaves alone: every field whose key is absent from the object it
  is given.\<close>

definition kept_Client :: "Client \<Rightarrow> PartialInsertClient \<Rightarrow> Client \<Rightarrow> bool" where
  "kept_Client old p new =
     ((pc_id p = None \<longrightarrow> c_id new = c_id old)
      \<and> (pc_createdAt p = None \<longrightarrow> c_createdAt new = c_createdAt old)
      \<and> (pc_userId p = None \<longrightarrow> c_userId new = c_userId old)
      \<and> (pc_fullName p = None \<longrightarrow> c_fullName new = c_fullName old)
      \<and> (pc_email p = None \<longrightarrow> c_email new = c_email old)
      \<and> (pc_phone p = None \<longrightarrow> c_phone new = c_phone old)
      \<and> (pc_birthDate p = None \<longrightarrow> c_birthDate new = c_birthDate old)
      \<and> (pc_gender p = None \<longrightarrow> c_gender new = c_gender old)
      \<and> (pc_profileImage p = None \<longrightarrow> c_profileImage new = c_profileImage old)
      \<and> (pc_height p = None \<longrightarrow> c_height new = c_height old)
      \<and> (pc_startingWeight p = None \<longrightarrow> c_startingWeight new = c_startingWeight old)
      \<and> (pc_targetWeight p = None \<longrightarrow> c_targetWeight new = c_targetWeight old)
      \<and> (pc_activityLevel p = None \<longrightarrow> c_activityLevel new = c_activityLevel old)
      \<and> (pc_medicalHistory p = None \<longrightarrow> c_medicalHistory new = c_medicalHistory old)
      \<and> (pc_dietaryRestrictions p = None
           \<longrightarrow> c_dietaryRestrictions new = c_dietaryRestrictions old)
      \<and> (pc_telegramChatId p = None \<longrightarrow> c_telegramChatId new = c_telegramChatId old)
      \<and> (pc_notes p = None \<longrightarrow> c_notes new = c_notes old)
      \<and> (pc_isActive p = None \<longrightarrow> c_isActive new = c_isActive old))"

definition kept_Measurement ::
  "Measurement \<Rightarrow> PartialInsertMeasurement \<Rightarrow> Measurement \<Rightarrow> bool" where
  "kept_Measurement old p new =
     ((pm_id p = None \<longrightarrow> m_id new = m_id old)
      \<and> (pm_clientId p = None \<longrightarrow> m_clientId new = m_clientId old)
      \<and> (pm_date p = None \<longrightarrow> m_date new = m_date old)
      \<and> (pm_weight p = None \<longrightarrow> m_weight new = m_weight old)
      \<and> (pm_chest p = None \<longrightarrow> m_chest new = m_chest old)
      \<and> (pm_waist p = None \<longrightarrow> m_waist new = m_waist old)
      \<and> (pm_hip p = None \<longrightarrow> m_hip new = m_hip old)
      \<and> (pm_arm p = None \<longrightarrow> m_arm new = m_arm old)
      \<and> (pm_thigh p = None \<longrightarrow> m_thigh new = m_thigh old)
      \<and> (pm_bodyFatPercentage p = None
           \<longrightarrow> m_bodyFatPercentage new = m_bodyFatPercentage old)
      \<and> (pm_notes p = None \<longrightarrow> m_notes new = m_notes old))"

definition kept_DietPlan :: "DietPlan \<Rightarrow> PartialInsertDietPlan \<Rightarrow> DietPlan \<Rightarrow> bool" where
  "kept_DietPlan old p new =
     ((pdp_id p = None \<longrightarrow> d_id new = d_id old)
      \<and> (pdp_createdAt p = None \<longrightarrow> d_createdAt new = d_createdAt old)
      \<and> (pdp_userId p = None \<longrightarrow> d_userId new = d_userId old)
      \<and> (pdp_clientId p = None \<longrightarrow> d_clientId new = d_clientId old)
      \<and> (pdp_name p = None \<longrightarrow> d_name new = d_name old)
      \<and> (pdp_description p = None \<longrightarrow> d_description new = d_description old)
      \<and> (pdp_startDate p = None \<longrightarrow> d_startDate new = d_startDate old)
      \<and> (pdp_endDate p = None \<longrightarrow> d_endDate new = d_endDate old)
      \<and> (pdp_dailyCalories p = None \<longrightarrow> d_dailyCalories new = d_dailyCalories old)
      \<and> (pdp_macroProtein p = None \<longrightarrow> d_macroProtein new = d_macroProtein old)
      \<and> (pdp_macroCarbs p = None \<longrightarrow> d_macroCarbs new = d_macroCarbs old)
      \<and> (pdp_macroFat p = None \<longrightarrow> d_macroFat new = d_macroFat old)
      \<and> (pdp_meals p = None \<longrightarrow> d_meals new = d_meals old)
      \<and> (pdp_isActive p = None \<longrightarrow> d_isActive new = d_isActive old))"

definition kept_Appointment ::
  "Appointment \<Rightarrow> PartialInsertAppointment \<Rightarrow> Appointment \<Rightarrow> bool" where
  "kept_Appointment old p new =
     ((pa_id p = None \<longrightarrow> a_id new = a_id old)
      \<and> (pa_createdAt p = None \<longrightarrow> a_createdAt new = a_createdAt old)
      \<and> (pa_userId p = None \<longrightarrow> a_userId new = a_userId old)
      \<and> (pa_clientId p = None \<longrightarrow> a_clientId new = a_clientId old)
      \<and> (pa_date p = None \<longrightarrow> a_date new = a_date old)
      \<and> (pa_duration p = None \<longrightarrow> a_duration new = a_duration old)
      \<and> (pa_type p = None \<longrightarrow> a_type new = a_type old)
      \<and> (pa_notes p = None \<longrightarrow> a_notes new = a_notes old)
      \<and> (pa_status p = None \<longrightarrow> a_status new = a_status old))"

text \<open>A partial appointment that sets the status.\<close>

definition complete :: PartialInsertAppointment where
  "complete =
     \<lparr> pa_id = None, pa_userId = None, pa_clientId = None, pa_date = None,
       pa_duration = None, pa_type = None, pa_notes = None,
       pa_status = Some (Some ''completed''), pa_createdAt = None \<rparr>"

text \<open>Stand-ins for bcrypt and jwt, and a store in which the user ayse has registered.\<close>

definition sample_hash :: "string \<Rightarrow> string" where
  "sample_hash password = ''hash:'' @ password"

definition sample_compare :: "string \<Rightarrow> string \<Rightarrow> bool" where
  "sample_compare password hashed = (hashed = sample_hash password)"

definition sample_sign :: "int \<Rightarrow> string \<Rightarrow> string" where
  "sample_sign i username = ''token:'' @ username"

definition ayse_body :: RegisterBody where
  "ayse_body =
     \<lparr> rb_username = Str ''ayse'', rb_password = Str ''secret'',
       rb_email = Str ''ayse@example.com'', rb_fullName = Str ''Ayse Yilmaz'',
       rb_profileImage = Absent, rb_telegramToken = Null, rb_telegramChatId = Absent \<rparr>"

definition user_store :: MemStorage where
  "user_store = snd (register sample_hash sample_sign 5 ayse_body (new_MemStorage 0 0 0))"

text \<open>The engine's order for 64 elements and more is not consulted by the samples.\<close>

definition sample_engine :: "'a engine_order" where
  "sample_engine cmp xs = xs"

text \<open>An update object that carries only the key \<open>id\<close>.\<close>

definition renumber :: PartialInsertClient where
  "renumber =
     \<lparr> pc_id = Some 99, pc_userId = None, pc_fullName = None, pc_email = None,
       pc_phone = None, pc_birthDate = None, pc_gender = None, pc_profileImage = None,
       pc_height = None, pc_startingWeight = None, pc_targetWeight = None,
       pc_activityLevel = None, pc_medicalHistory = None, pc_dietaryRestrictions = None,
       pc_telegramChatId = None, pc_notes = None, pc_isActive = None,
       pc_createdAt = None \<rparr>"

text \<open>A client with four measurements, the third stored without a date.\<close>

definition undated_store4 :: MemStorage where
  "undated_store4 =
     run id format_date
       [CreateClient 1 1 (sample_client 1 ''Ayse''),
        CreateMeasurement 2 (sample_measurement 1 (DateValue 100)),
        CreateMeasurement 3 (sample_measurement 1 (DateValue 200)),
        CreateMeasurement 4 (sample_measurement 1 DateUndefined),
        CreateMeasurement 5 (sample_measurement 1 (DateValue 300))]
       (new_MemStorage 0 0 0)"

section \<open>Properties\<close>

subsection \<open>Loops and sorting\<close>

lemma collect_filter: "collect p xs acc = acc @ filter p xs"
  by (induction xs arbitrary: acc) auto

lemma insert_sorted_key:
  "\<forall>y \<in> set ys. (cmp_value (c x y) \<le> 0) = (g x \<le> g y) \<Longrightarrow>
   insert_sorted c x ys = insort_key g x ys"
  by (induction ys) auto

lemma stable_sort_key:
  "\<forall>x \<in> set xs. \<forall>y \<in> set xs. (cmp_value (c x y) \<le> 0) = (g x \<le> g y) \<Longrightarrow>
   stable_sort c xs = sort_key g xs"
proof (induction xs)
  case Nil
  show ?case by (simp add: stable_sort_def)
next
  case (Cons x xs)
  have ih: "stable_sort c xs = sort_key g xs"
    using Cons by simp
  have "insert_sorted c x (sort_key g xs) = insort_key g x (sort_key g xs)"
    using Cons.prems by (intro insert_sorted_key) simp
  then show ?case
    using ih by (simp add: stable_sort_def sort_key_def)
qed

text \<open>For a comparator that orders by a key, the single run of the engine is the stable
  sort by that key.\<close>

lemma extend_run_asc:
  fixes g :: "'a \<Rightarrow> int"
  assumes "\<forall>x \<in> insert p (set rest). \<forall>y \<in> insert p (set rest).
             (cmp_value (c x y) < 0) = (g x < g y)"
    and "extend_run c False p rest = (further, remaining)"
  shows "rest = further @ remaining \<and> sorted (map g (p # further))"
  using assms
proof (induction rest arbitrary: p further remaining)
  case Nil
  then show ?case by simp
next
  case (Cons cur rest)
  show ?case
  proof (cases "cmp_value (c cur p) < 0")
    case True
    then show ?thesis using Cons.prems(2) by simp
  next
    case False
    obtain m r where e: "extend_run c False cur rest = (m, r)"
      by (cases "extend_run c False cur rest")
    have mr: "further = cur # m" "remaining = r"
      using Cons.prems(2) False e by (simp_all add: Let_def)
    have "rest = m @ r \<and> sorted (map g (cur # m))"
      using Cons.prems(1) e by (intro Cons.IH) auto
    moreover have "g p \<le> g cur"
      using False Cons.prems(1) by (simp add: not_less)
    ultimately show ?thesis
      using mr by auto
  qed
qed

lemma extend_run_desc:
  fixes g :: "'a \<Rightarrow> int"
  assumes "\<forall>x \<in> insert p (set rest). \<forall>y \<in> insert p (set rest).
             (cmp_value (c x y) < 0) = (g x < g y)"
    and "extend_run c True p rest = (further, remaining)"
  shows "rest = further @ remaining \<and> sorted_wrt (\<lambda>a b. g b < g a) (p # further)"
  using assms
proof (induction rest arbitrary: p further remaining)
  case Nil
  then show ?case by simp
next
  case (Cons cur rest)
  show ?case
  proof (cases "cmp_value (c cur p) \<ge> 0")
    case True
    then show ?thesis using Cons.prems(2) by simp
  next
    case False
    obtain m r where e: "extend_run c True cur rest = (m, r)"
      by (cases "extend_run c True cur rest")
    have mr: "further = cur # m" "remaining = r"
      using Cons.prems(2) False e by (simp_all add: Let_def)
    have ih: "rest = m @ r \<and> sorted_wrt (\<lambda>a b. g b < g a) (cur # m)"
      using Cons.prems(1) e by (intro Cons.IH) auto
    moreover have "g cur < g p"
      using False Cons.prems(1) by (simp add: not_le)
    ultimately show ?thesis
      using mr by (auto intro: less_trans)
  qed
qed


lemma CountAndMakeRun_key:
  fixes g :: "'a \<Rightarrow> int"
  assumes "\<forall>x \<in> set xs. \<forall>y \<in> set xs. (cmp_value (c x y) < 0) = (g x < g y)"
    and "CountAndMakeRun c xs = (found, remaining)"
  shows "\<exists>front. xs = front @ remaining \<and> found = sort_key g front"
proof (cases "(c, xs)" rule: CountAndMakeRun.cases)
  case 1
  then show ?thesis using assms(2) by auto
next
  case (2 cmp0 x)
  then show ?thesis using assms(2) by auto
next
  case (3 cmp0 hi lo rest)
  then have xs: "xs = hi # lo # rest" by simp
  let ?desc = "cmp_value (c lo hi) < 0"
  obtain m r where e: "extend_run c ?desc lo rest = (m, r)"
    by (cases "extend_run c ?desc lo rest")
  have H: "\<forall>x \<in> insert lo (set rest). \<forall>y \<in> insert lo (set rest).
             (cmp_value (c x y) < 0) = (g x < g y)"
    using assms(1) xs by simp
  have fr: "found = (if ?desc then rev (hi # lo # m) else hi # lo # m)" "remaining = r"
    using assms(2) xs e by (simp_all add: Let_def)
  show ?thesis
  proof (cases ?desc)
    case True
    have e': "extend_run c True lo rest = (m, r)" using e True by simp
    have d: "rest = m @ r" "sorted_wrt (\<lambda>a b. g b < g a) (lo # m)"
      using extend_run_desc [OF H e'] by simp_all
    have "g lo < g hi" using True assms(1) xs by simp
    then have s: "sorted_wrt (\<lambda>a b. g b < g a) (hi # lo # m)"
      using d(2) by (auto intro: less_trans)
    have "sorted_wrt (\<lambda>a b. g a < g b) (rev (hi # lo # m))"
      using s by (simp only: sorted_wrt_rev)
    then have st: "sorted_wrt (<) (map g (rev (hi # lo # m)))"
      by (simp only: sorted_wrt_map)
    then have "sorted (map g (rev (hi # lo # m)))"
      by (simp only: strict_sorted_iff)
    moreover have "distinct (map g (rev (hi # lo # m)))"
      using st by (simp only: strict_sorted_iff)
    then have "inj_on g (set (hi # lo # m))"
      by (simp only: distinct_map set_rev)
    moreover have "mset (hi # lo # m) = mset (rev (hi # lo # m))"
      by (simp only: mset_rev)
    ultimately have "sort_key g (hi # lo # m) = rev (hi # lo # m)"
      by (intro sort_key_inj_key_eq)
    then show ?thesis
      using fr True d(1) xs by (intro exI [of _ "hi # lo # m"]) simp
  next
    case False
    have e': "extend_run c False lo rest = (m, r)" using e False by simp
    have d: "rest = m @ r" "sorted (map g (lo # m))"
      using extend_run_asc [OF H e'] by simp_all
    have "g hi \<le> g lo" using False assms(1) xs by (simp add: not_less)
    then have "sorted (map g (hi # lo # m))"
      using d(2) by auto
    then have "sort_key g (hi # lo # m) = hi # lo # m"
      by (rule sort_key_id_if_sorted)
    then show ?thesis
      using fr False d(1) xs by (intro exI [of _ "hi # lo # m"]) simp
  qed
qed



lemma search_place_key:
  fixes g :: "'a \<Rightarrow> int"
  assumes "\<forall>x \<in> set w. (cmp_value (c pivot x) < 0) = (g pivot < g x)"
    and "sorted (map g w)"
    and "left \<le> right" and "right \<le> length w"
    and "\<forall>i < left. g (w ! i) \<le> g pivot"
    and "\<forall>i. right \<le> i \<and> i < length w \<longrightarrow> g pivot < g (w ! i)"
  shows "search_place c pivot w left right \<le> length w
         \<and> (\<forall>i < search_place c pivot w left right. g (w ! i) \<le> g pivot)
         \<and> (\<forall>i. search_place c pivot w left right \<le> i \<and> i < length w
                \<longrightarrow> g pivot < g (w ! i))"
  using assms
proof (induction c pivot w left right rule: search_place.induct)
  case (1 cmp pivot w left right)
  note eq = search_place.simps [of cmp pivot w left right]
  show ?case
  proof (cases "left < right")
    case False
    then have "left = right" using "1.prems"(3) by simp
    then show ?thesis using "1.prems" by (subst (1 2 3) eq) simp
  next
    case True
    define mid where "mid = left + (right - left) div 2"
    have m: "left \<le> mid" "mid < right" "mid < length w"
      using True "1.prems"(4) by (simp_all add: mid_def)
    have srt: "\<And>i j. i \<le> j \<Longrightarrow> j < length w \<Longrightarrow> g (w ! i) \<le> g (w ! j)"
      using "1.prems"(2) by (simp add: sorted_iff_nth_mono)
    have key: "(cmp_value (cmp pivot (w ! mid)) < 0) = (g pivot < g (w ! mid))"
      using "1.prems"(1) m(3) by simp
    show ?thesis
    proof (cases "cmp_value (cmp pivot (w ! mid)) < 0")
      case lt: True
      have r: "search_place cmp pivot w left right = search_place cmp pivot w left mid"
        using True lt by (subst eq) (simp add: mid_def Let_def)
      have "\<forall>i. mid \<le> i \<and> i < length w \<longrightarrow> g pivot < g (w ! i)"
      proof (intro allI impI)
        fix i assume "mid \<le> i \<and> i < length w"
        then have "g (w ! mid) \<le> g (w ! i)" using srt by simp
        then show "g pivot < g (w ! i)" using lt key by simp
      qed
      then have up: "\<forall>i. mid \<le> i \<and> i < length w \<longrightarrow> g pivot < g (w ! i)" .
      have "left \<le> mid" "mid \<le> length w" using m by simp_all
      then show ?thesis
        unfolding r
        using "1.IH"(1) [OF True mid_def refl lt "1.prems"(1) "1.prems"(2) _ _ "1.prems"(5) up]
        by blast
    next
      case ge: False
      have r: "search_place cmp pivot w left right = search_place cmp pivot w (mid + 1) right"
        using True ge by (subst eq) (simp add: mid_def Let_def)
      have "\<forall>i < mid + 1. g (w ! i) \<le> g pivot"
      proof (intro allI impI)
        fix i assume "i < mid + 1"
        then have "g (w ! i) \<le> g (w ! mid)" using srt m(3) by simp
        then show "g (w ! i) \<le> g pivot" using ge key by simp
      qed
      then have low: "\<forall>i < mid + 1. g (w ! i) \<le> g pivot" .
      have "mid + 1 \<le> right" using m by simp
      then show ?thesis
        unfolding r
        using "1.IH"(2) [OF True mid_def refl ge "1.prems"(1) "1.prems"(2) _ "1.prems"(4) low "1.prems"(6)]
        by blast
    qed
  qed
qed


lemma sort_key_append_sorted:
  fixes g :: "'a \<Rightarrow> int"
  shows "sort_key g (sort_key g as @ bs) = sort_key g (as @ bs)"
proof (rule sym, rule properties_for_sort_key)
  show "mset (sort_key g (sort_key g as @ bs)) = mset (as @ bs)"
    by simp
  show "sorted (map g (sort_key g (sort_key g as @ bs)))"
    by (rule sorted_sort_key)
next
  fix k
  have "filter (\<lambda>x. g x = g k) (sort_key g (sort_key g as @ bs))
          = filter (\<lambda>x. g x = g k) (sort_key g as @ bs)"
    by (rule sort_key_stable)
  also have "\<dots> = filter (\<lambda>x. g x = g k) as @ filter (\<lambda>x. g x = g k) bs"
    by (simp only: filter_append sort_key_stable)
  finally show "filter (\<lambda>x. g k = g x) (sort_key g (sort_key g as @ bs))
                  = filter (\<lambda>x. g k = g x) (as @ bs)"
    by (simp add: eq_commute [of "g k"])
qed

lemma place_pivot:
  fixes g :: "'a \<Rightarrow> int"
  assumes key: "\<forall>x \<in> set placed. (cmp_value (c pivot x) < 0) = (g pivot < g x)"
    and srt: "sorted (map g placed)"
  shows "take (search_place c pivot placed 0 (length placed)) placed @ [pivot]
           @ drop (search_place c pivot placed 0 (length placed)) placed
         = sort_key g (placed @ [pivot])"
proof -
  define k where "k = search_place c pivot placed 0 (length placed)"
  have sp: "k \<le> length placed" "\<forall>i < k. g (placed ! i) \<le> g pivot"
    "\<forall>i. k \<le> i \<and> i < length placed \<longrightarrow> g pivot < g (placed ! i)"
    using search_place_key [where c = c and pivot = pivot and w = placed and g = g
        and left = 0 and right = "length placed", OF key srt]
    by (simp_all add: k_def)
  have low: "\<forall>x \<in> set (take k placed). g x \<le> g pivot"
    using sp(1,2) by (auto simp add: in_set_conv_nth)
  have high: "\<forall>x \<in> set (drop k placed). g pivot < g x"
    using sp(1,3) by (auto simp add: in_set_conv_nth)
  have parts: "placed = take k placed @ drop k placed" by simp
  have st: "sorted (map g (take k placed))" "sorted (map g (drop k placed))"
    using srt by (simp_all only: sorted_map sorted_wrt_take sorted_wrt_drop)
  have "sort_key g (placed @ [pivot]) = take k placed @ [pivot] @ drop k placed"
  proof (rule properties_for_sort_key)
    show "mset (take k placed @ [pivot] @ drop k placed) = mset (placed @ [pivot])"
      by (subst (3) parts) (simp only: mset_append add_ac)
    show "sorted (map g (take k placed @ [pivot] @ drop k placed))"
      using st low high by (fastforce simp add: sorted_append)
  next
    fix x
    have nil: "g x = g pivot \<Longrightarrow> filter (\<lambda>y. g x = g y) (drop k placed) = []"
      using high by (auto simp add: filter_empty_conv)
    have "filter (\<lambda>y. g x = g y) (placed @ [pivot])
            = filter (\<lambda>y. g x = g y) (take k placed) @ filter (\<lambda>y. g x = g y) (drop k placed)
              @ filter (\<lambda>y. g x = g y) [pivot]"
      by (subst (1) parts) (simp only: filter_append append_assoc)
    then show "filter (\<lambda>y. g x = g y) (take k placed @ [pivot] @ drop k placed)
                 = filter (\<lambda>y. g x = g y) (placed @ [pivot])"
      using nil by (cases "g x = g pivot") simp_all
  qed
  then show ?thesis by (simp only: k_def)
qed

lemma BinaryInsertionSort_key:
  fixes g :: "'a \<Rightarrow> int"
  assumes "\<forall>x \<in> set placed \<union> set rest. \<forall>y \<in> set placed \<union> set rest.
             (cmp_value (c x y) < 0) = (g x < g y)"
    and "sorted (map g placed)"
  shows "BinaryInsertionSort c placed rest = sort_key g (placed @ rest)"
  using assms
proof (induction rest arbitrary: placed)
  case Nil
  then show ?case by (simp add: sort_key_id_if_sorted)
next
  case (Cons pivot rest)
  let ?k = "search_place c pivot placed 0 (length placed)"
  let ?next = "take ?k placed @ [pivot] @ drop ?k placed"
  have pp: "?next = sort_key g (placed @ [pivot])"
    using Cons.prems by (intro place_pivot) simp_all
  have "BinaryInsertionSort c placed (pivot # rest) = BinaryInsertionSort c ?next rest"
    by (simp add: Let_def)
  also have "\<dots> = BinaryInsertionSort c (sort_key g (placed @ [pivot])) rest"
    by (simp only: pp)
  also have "\<dots> = sort_key g (sort_key g (placed @ [pivot]) @ rest)"
    using Cons.prems(1) by (intro Cons.IH) (simp_all add: sorted_sort_key)
  also have "\<dots> = sort_key g (placed @ pivot # rest)"
    by (simp only: sort_key_append_sorted append_assoc append_Cons append_Nil)
  finally show ?case .
qed

lemma single_run_sort_key:
  fixes g :: "'a \<Rightarrow> int"
  assumes "\<forall>x \<in> set xs. \<forall>y \<in> set xs. (cmp_value (c x y) < 0) = (g x < g y)"
  shows "single_run_sort c xs = sort_key g xs"
proof (cases "length xs < 2")
  case True
  then have "xs = [] \<or> (\<exists>x. xs = [x])"
    by (cases xs) (auto simp add: length_Suc_conv)
  then show ?thesis using True by (auto simp add: single_run_sort_def)
next
  case False
  obtain found remaining where cm: "CountAndMakeRun c xs = (found, remaining)"
    by (cases "CountAndMakeRun c xs")
  obtain front where f: "xs = front @ remaining" "found = sort_key g front"
    using CountAndMakeRun_key [OF assms cm] by blast
  have "single_run_sort c xs = BinaryInsertionSort c found remaining"
    using False cm by (simp add: single_run_sort_def)
  also have "\<dots> = sort_key g (found @ remaining)"
    using assms f by (intro BinaryInsertionSort_key) (auto simp add: sorted_sort_key)
  also have "\<dots> = sort_key g xs"
    by (simp only: f sort_key_append_sorted)
  finally show ?thesis .
qed

text \<open>A consistent comparator orders by a key: the number of elements it puts before.\<close>

lemma consistent_key:
  assumes "consistent cmp xs"
  shows "\<exists>g :: 'a \<Rightarrow> int. \<forall>x \<in> set xs. \<forall>y \<in> set xs.
           ((cmp_value (cmp x y) < 0) = (g x < g y))
           \<and> ((cmp_value (cmp x y) \<le> 0) = (g x \<le> g y))"
proof -
  define r where "r a b = cmp_value (cmp a b)" for a b
  define S where "S = set xs"
  have raw: "\<forall>a \<in> S. \<forall>b \<in> S. \<forall>c \<in> S.
      r a a = 0 \<and> (r a b = 0 \<longrightarrow> r b a = 0) \<and> (r a b = 0 \<and> r b c = 0 \<longrightarrow> r a c = 0)
      \<and> (r a b < 0 \<and> r b c < 0 \<longrightarrow> r a c < 0) \<and> (r a b > 0 \<and> r b c > 0 \<longrightarrow> r a c > 0)"
    using assms unfolding consistent_def r_def S_def .
  have all: "r a a = 0 \<and> (r a b = 0 \<longrightarrow> r b a = 0) \<and> (r a b = 0 \<and> r b c = 0 \<longrightarrow> r a c = 0)
      \<and> (r a b < 0 \<and> r b c < 0 \<longrightarrow> r a c < 0) \<and> (r a b > 0 \<and> r b c > 0 \<longrightarrow> r a c > 0)"
    if "a \<in> S" "b \<in> S" "c \<in> S" for a b c
    using raw [THEN bspec, OF that(1), THEN bspec, OF that(2), THEN bspec, OF that(3)] .
  have R: "\<And>a. a \<in> S \<Longrightarrow> r a a = 0"
    using all by blast
  have Sy: "\<And>a b. a \<in> S \<Longrightarrow> b \<in> S \<Longrightarrow> r a b = 0 \<Longrightarrow> r b a = 0"
    using all by blast
  have T0: "\<And>a b c. a \<in> S \<Longrightarrow> b \<in> S \<Longrightarrow> c \<in> S \<Longrightarrow> r a b = 0 \<Longrightarrow> r b c = 0 \<Longrightarrow> r a c = 0"
    using all by blast
  have Tl: "\<And>a b c. a \<in> S \<Longrightarrow> b \<in> S \<Longrightarrow> c \<in> S \<Longrightarrow> r a b < 0 \<Longrightarrow> r b c < 0 \<Longrightarrow> r a c < 0"
    using all by blast
  have Tg: "\<And>a b c. a \<in> S \<Longrightarrow> b \<in> S \<Longrightarrow> c \<in> S \<Longrightarrow> r a b > 0 \<Longrightarrow> r b c > 0 \<Longrightarrow> r a c > 0"
    using all by blast
  have A: "r b a > 0" if "a \<in> S" "b \<in> S" "r a b < 0" for a b
  proof (rule ccontr)
    assume "\<not> r b a > 0"
    then consider "r b a < 0" | "r b a = 0" by linarith
    then show False
    proof cases
      case 1
      then have "r a a < 0" using Tl [OF that(1) that(2) that(1) that(3)] by simp
      then show False using R [OF that(1)] by simp
    next
      case 2
      then have "r a b = 0" using Sy [OF that(2) that(1)] by simp
      then show False using that(3) by simp
    qed
  qed
  have A': "r b a < 0" if "a \<in> S" "b \<in> S" "r a b > 0" for a b
  proof (rule ccontr)
    assume "\<not> r b a < 0"
    then consider "r b a > 0" | "r b a = 0" by linarith
    then show False
    proof cases
      case 1
      then have "r a a > 0" using Tg [OF that(1) that(2) that(1) that(3)] by simp
      then show False using R [OF that(1)] by simp
    next
      case 2
      then have "r a b = 0" using Sy [OF that(2) that(1)] by simp
      then show False using that(3) by simp
    qed
  qed
  have E2: "r a c < 0" if "a \<in> S" "b \<in> S" "c \<in> S" "r a b < 0" "r b c = 0" for a b c
  proof (rule ccontr)
    assume "\<not> r a c < 0"
    then consider "r a c > 0" | "r a c = 0" by linarith
    then show False
    proof cases
      case 1
      then have "r c a < 0" using A' [OF that(1) that(3)] by simp
      then have "r c b < 0" using Tl [OF that(3) that(1) that(2)] that(4) by simp
      moreover have "r c b = 0" using Sy [OF that(2) that(3) that(5)] .
      ultimately show False by simp
    next
      case 2
      then have "r c a = 0" using Sy [OF that(1) that(3)] by simp
      then have "r b a = 0" using T0 [OF that(2) that(3) that(1) that(5)] by simp
      then have "r a b = 0" using Sy [OF that(2) that(1)] by simp
      then show False using that(4) by simp
    qed
  qed
  define L where "L x = {z \<in> S. r z x < 0}" for x
  define g where "g x = int (card (L x))" for x
  have fin: "\<And>x. finite (L x)" by (simp add: L_def S_def)
  have K1: "g x < g y" if "x \<in> S" "y \<in> S" "r x y < 0" for x y
  proof -
    have "L x \<subseteq> L y"
    proof
      fix z assume "z \<in> L x"
      then have z: "z \<in> S" "r z x < 0" by (simp_all add: L_def)
      show "z \<in> L y" using Tl [OF z(1) that(1) that(2) z(2) that(3)] z(1) by (simp add: L_def)
    qed
    moreover have "x \<in> L y" using that by (simp add: L_def)
    moreover have "x \<notin> L x" using R [OF that(1)] by (simp add: L_def)
    ultimately have "L x \<subset> L y" by blast
    then have "card (L x) < card (L y)" using fin by (intro psubset_card_mono)
    then show ?thesis by (simp add: g_def)
  qed
  have K2: "g x = g y" if "x \<in> S" "y \<in> S" "r x y = 0" for x y
  proof -
    have "r y x = 0" using Sy [OF that] .
    have "L x \<subseteq> L y"
    proof
      fix z assume "z \<in> L x"
      then have z: "z \<in> S" "r z x < 0" by (simp_all add: L_def)
      show "z \<in> L y" using E2 [OF z(1) that(1) that(2) z(2) that(3)] z(1) by (simp add: L_def)
    qed
    moreover have "L y \<subseteq> L x"
    proof
      fix z assume "z \<in> L y"
      then have z: "z \<in> S" "r z y < 0" by (simp_all add: L_def)
      show "z \<in> L x"
        using E2 [OF z(1) that(2) that(1) z(2) \<open>r y x = 0\<close>] z(1) by (simp add: L_def)
    qed
    ultimately show ?thesis by (simp add: g_def)
  qed
  have K3: "g y < g x" if "x \<in> S" "y \<in> S" "r x y > 0" for x y
    using K1 [OF that(2) that(1) A' [OF that]] .
  have "((r x y < 0) = (g x < g y)) \<and> ((r x y \<le> 0) = (g x \<le> g y))"
    if "x \<in> S" "y \<in> S" for x y
  proof -
    consider "r x y < 0" | "r x y = 0" | "r x y > 0" by linarith
    then show ?thesis
    proof cases
      case 1 then show ?thesis using K1 [OF that] by simp
    next
      case 2 then show ?thesis using K2 [OF that] by simp
    next
      case 3 then show ?thesis using K3 [OF that] by simp
    qed
  qed
  then have "\<forall>x \<in> S. \<forall>y \<in> S. ((r x y < 0) = (g x < g y)) \<and> ((r x y \<le> 0) = (g x \<le> g y))"
    by (intro ballI)
  then show ?thesis
    unfolding r_def S_def by (rule exI [of _ g])
qed


lemma single_run_sort_consistent:
  assumes "consistent cmp xs"
  shows "single_run_sort cmp xs = stable_sort cmp xs"
proof -
  obtain g :: "'a \<Rightarrow> int" where g: "\<forall>x \<in> set xs. \<forall>y \<in> set xs.
           ((cmp_value (cmp x y) < 0) = (g x < g y))
           \<and> ((cmp_value (cmp x y) \<le> 0) = (g x \<le> g y))"
    using consistent_key [OF assms] by blast
  have both: "((cmp_value (cmp x y) < 0) = (g x < g y))
           \<and> ((cmp_value (cmp x y) \<le> 0) = (g x \<le> g y))" if "x \<in> set xs" "y \<in> set xs" for x y
    using g [THEN bspec, OF that(1), THEN bspec, OF that(2)] .
  have "\<forall>x \<in> set xs. \<forall>y \<in> set xs. (cmp_value (cmp x y) < 0) = (g x < g y)"
    using both by (intro ballI) (rule conjunct1)
  then have "single_run_sort cmp xs = sort_key g xs"
    by (rule single_run_sort_key)
  moreover have "\<forall>x \<in> set xs. \<forall>y \<in> set xs. (cmp_value (cmp x y) \<le> 0) = (g x \<le> g y)"
    using both by (intro ballI) (rule conjunct2)
  then have "stable_sort cmp xs = sort_key g xs"
    by (rule stable_sort_key)
  ultimately show ?thesis by simp
qed

lemma Array_sort_consistent:
  "consistent cmp xs \<Longrightarrow> Array_sort engine cmp xs = stable_sort cmp xs"
  by (simp add: Array_sort_def single_run_sort_consistent)

lemma consistent_asc: "consistent (\<lambda>a b. Some (f a - f b)) xs"
  by (simp add: consistent_def cmp_value_def)

lemma consistent_desc: "consistent (\<lambda>a b. Some (f b - f a)) xs"
  by (simp add: consistent_def cmp_value_def)

lemma Array_sort_asc: "Array_sort engine (\<lambda>a b. Some (f a - f b)) xs = sort_key f xs"
  using stable_sort_key [of xs "\<lambda>a b. Some (f a - f b)" f]
  by (simp add: Array_sort_consistent consistent_asc cmp_value_def)

lemma Array_sort_desc:
  "Array_sort engine (\<lambda>a b. Some (f b - f a)) xs = sort_key (\<lambda>a. - f a) xs"
  using stable_sort_key [of xs "\<lambda>a b. Some (f b - f a)" "\<lambda>a. - f a"]
  by (simp add: Array_sort_consistent consistent_desc cmp_value_def)

lemma ok_map_filter_ids:
  "ok_map idf n m \<Longrightarrow> sorted_wrt (<) (map idf (filter p (Map_values m)))"
proof -
  assume a: "ok_map idf n m"
  have e: "map idf (map snd m) = map fst m"
    using a by (auto simp: ok_map_def)
  have "sorted_wrt (<) (map idf (Map_values m))"
    using a unfolding Map_values_def e by (simp add: ok_map_def)
  then show ?thesis
    unfolding sorted_wrt_map by (rule sorted_wrt_filter)
qed

subsection \<open>Listings by owner\<close>

text \<open>
  C1, as stated, fails: \<open>getAppointmentsForUser\<close> sorts by the appointment's date, so two
  appointments of one user created with dates 200 and then 100 are not listed in insertion
  order.
\<close>

theorem C1_counterexample:
  "keys KAppointment listing_store = [1, 2]
   \<and> map a_userId (Map_values (appointments listing_store)) = [1, 1]
   \<and> map a_id (getAppointmentsForUser sample_engine listing_store 1) = [2, 1]"
  by code_simp

text \<open>
  C1, amended: \<open>getClientsForUser\<close> and \<open>getDietPlansForUser\<close> return exactly the stored
  entities whose userId matches, in insertion order, which is the order of creation
  (ascending id) in a store built by the constructor, creations, deletions and updates
  that carry no id. \<open>getAppointmentsForUser\<close> returns exactly the stored appointments whose
  userId matches, ordered by date ascending, appointments of equal date in insertion
  order.
\<close>

theorem C1_listings:
  "getClientsForUser s u = filter (\<lambda>c. c_userId c = u) (Map_values (clients s))
   \<and> getDietPlansForUser s u = filter (\<lambda>d. d_userId d = u) (Map_values (dietPlans s))
   \<and> (inv s \<longrightarrow> sorted_wrt (<) (map c_id (getClientsForUser s u))
               \<and> sorted_wrt (<) (map d_id (getDietPlansForUser s u)))
   \<and> mset (getAppointmentsForUser engine s u)
       = mset (filter (\<lambda>a. a_userId a = u) (Map_values (appointments s)))
   \<and> sorted (map a_date (getAppointmentsForUser engine s u))
   \<and> (\<forall>t. filter (\<lambda>a. a_date a = t) (getAppointmentsForUser engine s u)
          = filter (\<lambda>a. a_date a = t)
              (filter (\<lambda>a. a_userId a = u) (Map_values (appointments s))))"
  by (auto simp: getClientsForUser_def getDietPlansForUser_def getAppointmentsForUser_def
        collect_filter Array_sort_asc sort_key_stable inv_def intro: ok_map_filter_ids)

text \<open>C1 at the sample store: the clients of user 1 are those with ids 1 and 3, in that
  order; the appointments come back as 2, 1.\<close>

theorem C1_witness:
  "inv listing_store
   \<and> map c_id (getClientsForUser listing_store 1) = [1, 3]
   \<and> sorted_wrt (<) (map c_id (getClientsForUser listing_store 1))
   \<and> map a_id (getAppointmentsForUser sample_engine listing_store 1) = [2, 1]"
proof -
  have h: "inv listing_store" by code_simp
  have c: "map c_id (filter (\<lambda>c. c_userId c = 1) (Map_values (clients listing_store))) = [1, 3]"
    by code_simp
  have a: "map a_id (getAppointmentsForUser sample_engine listing_store 1) = [2, 1]"
    by code_simp
  from C1_listings [of listing_store 1] h c a show ?thesis by simp
qed

subsection \<open>The invariants of the store\<close>

lemma Map_set_new: "k \<notin> fst ` set m \<Longrightarrow> Map_set k v m = m @ [(k, v)]"
  by (induction m) auto

lemma Map_set_keys: "k \<in> fst ` set m \<Longrightarrow> map fst (Map_set k v m) = map fst m"
  by (induction m) auto

lemma set_Map_set: "set (Map_set k v m) \<subseteq> insert (k, v) (set m)"
  by (induction m) auto

lemma map_of_Map_set: "map_of (Map_set k v m) = (map_of m)(k \<mapsto> v)"
  by (induction m) (auto simp: fun_eq_iff)

lemma Map_get_key: "Map_get m k = Some v \<Longrightarrow> k \<in> fst ` set m"
  by (auto simp: Map_get_def dest: map_of_SomeD intro: rev_image_eqI)

lemma keys_ok_fresh: "keys_ok n m \<Longrightarrow> n \<notin> fst ` set m"
  by (auto simp: keys_ok_def)

lemma keys_ok_append: "keys_ok n m \<Longrightarrow> keys_ok (n + 1) (Map_set n v m)"
  using Map_set_new [OF keys_ok_fresh, of n m v]
  by (auto simp: keys_ok_def sorted_wrt_append)

lemma keys_ok_update: "keys_ok n m \<Longrightarrow> Map_get m k = Some old \<Longrightarrow> keys_ok n (Map_set k v m)"
  using Map_set_keys [OF Map_get_key, of m k old v] by (simp add: keys_ok_def)

lemma keys_ok_filter: "keys_ok n m \<Longrightarrow> keys_ok n (filter P m)"
  unfolding keys_ok_def sorted_wrt_map by (auto intro: sorted_wrt_filter)

lemma keys_inv_createActivity: "keys_inv s \<Longrightarrow> keys_inv (snd (createActivity now d s))"
  by (simp add: keys_inv_def createActivity_def Let_def keys_ok_append)

lemma keys_inv_createUser: "keys_inv s \<Longrightarrow> keys_inv (snd (createUser h now d s))"
  by (simp add: keys_inv_def createUser_def Let_def keys_ok_append)

lemma keys_inv_createBlogArticle: "keys_inv s \<Longrightarrow> keys_inv (snd (createBlogArticle now d s))"
  by (simp add: keys_inv_def createBlogArticle_def Let_def keys_ok_append)

lemma keys_inv_createClient: "keys_inv s \<Longrightarrow> keys_inv (snd (createClient now now' d s))"
  by (simp add: keys_inv_def createClient_def createActivity_def Let_def keys_ok_append)

lemma keys_inv_createMeasurement: "keys_inv s \<Longrightarrow> keys_inv (snd (createMeasurement now d s))"
  by (simp add: keys_inv_def createMeasurement_def createActivity_def Let_def keys_ok_append
      split: option.split)

lemma keys_inv_createDietPlan: "keys_inv s \<Longrightarrow> keys_inv (snd (createDietPlan now now' d s))"
  by (simp add: keys_inv_def createDietPlan_def createActivity_def Let_def keys_ok_append)

lemma keys_inv_createAppointment:
  "keys_inv s \<Longrightarrow> keys_inv (snd (createAppointment f now now' d s))"
  by (simp add: keys_inv_def createAppointment_def createActivity_def Let_def keys_ok_append)

lemma keys_inv_update:
  "keys_inv s \<Longrightarrow> keys_inv (snd (updateClient i pc s))"
  "keys_inv s \<Longrightarrow> keys_inv (snd (updateMeasurement i pm s))"
  "keys_inv s \<Longrightarrow> keys_inv (snd (updateDietPlan i pd s))"
  "keys_inv s \<Longrightarrow> keys_inv (snd (updateAppointment i pa s))"
  by (auto simp: keys_inv_def updateClient_def updateMeasurement_def updateDietPlan_def
        updateAppointment_def Let_def split: option.split intro: keys_ok_update)

lemma keys_inv_delete:
  "keys_inv s \<Longrightarrow> keys_inv (snd (deleteClient i s))"
  "keys_inv s \<Longrightarrow> keys_inv (snd (deleteMeasurement i s))"
  "keys_inv s \<Longrightarrow> keys_inv (snd (deleteDietPlan i s))"
  "keys_inv s \<Longrightarrow> keys_inv (snd (deleteAppointment i s))"
  by (simp_all add: keys_inv_def deleteClient_def deleteMeasurement_def deleteDietPlan_def
      deleteAppointment_def Map_delete_def keys_ok_filter)

lemma keys_inv_step: "keys_inv s \<Longrightarrow> keys_inv (step h f x s)"
  by (cases x)
     (simp_all add: keys_inv_createActivity keys_inv_createUser keys_inv_createBlogArticle
        keys_inv_createClient keys_inv_createMeasurement keys_inv_createDietPlan
        keys_inv_createAppointment keys_inv_update keys_inv_delete)

lemma keys_inv_run: "keys_inv s \<Longrightarrow> keys_inv (run h f xs s)"
  by (induction xs arbitrary: s) (simp_all add: keys_inv_step)

lemma keys_inv_addInitial: "keys_inv s \<Longrightarrow> keys_inv (addInitialBlogArticles xs s)"
  by (induction xs s rule: addInitialBlogArticles.induct)
     (simp_all add: keys_inv_createBlogArticle)

lemma keys_inv_new: "keys_inv (new_MemStorage t1 t2 t3)"
proof -
  have "keys_inv empty_storage"
    by (simp add: keys_inv_def empty_storage_def keys_ok_def)
  then show ?thesis
    unfolding new_MemStorage_def by (rule keys_inv_addInitial)
qed

lemma keys_inv_fresh:
  assumes "keys_inv s"
  shows "userIdCounter s \<notin> fst ` set (users s)"
    and "clientIdCounter s \<notin> fst ` set (clients s)"
    and "measurementIdCounter s \<notin> fst ` set (measurements s)"
    and "dietPlanIdCounter s \<notin> fst ` set (dietPlans s)"
    and "appointmentIdCounter s \<notin> fst ` set (appointments s)"
    and "activityIdCounter s \<notin> fst ` set (activities s)"
    and "blogArticleIdCounter s \<notin> fst ` set (blogArticles s)"
  using assms unfolding keys_inv_def by (blast dest: keys_ok_fresh)+

lemma ok_map_keys: "ok_map idf n m \<Longrightarrow> keys_ok n m"
  by (auto simp: ok_map_def keys_ok_def)

lemma inv_keys_inv: "inv s \<Longrightarrow> keys_inv s"
  by (auto simp: inv_def keys_inv_def intro: ok_map_keys)

lemma ok_map_fresh: "ok_map idf n m \<Longrightarrow> n \<notin> fst ` set m"
  by (auto simp: ok_map_def)

lemma ok_map_append:
  assumes "ok_map idf n m" "idf v = n"
  shows "ok_map idf (n + 1) (Map_set n v m)"
proof -
  have "Map_set n v m = m @ [(n, v)]"
    using assms(1) by (intro Map_set_new ok_map_fresh)
  then show ?thesis
    using assms by (auto simp: ok_map_def sorted_wrt_append)
qed

lemma ok_map_update:
  assumes "ok_map idf n m" "Map_get m k = Some old" "idf v = k"
  shows "ok_map idf n (Map_set k v m)"
proof -
  have k: "k \<in> fst ` set m"
    using assms(2) by (rule Map_get_key)
  have "\<forall>p \<in> set (Map_set k v m). fst p < n \<and> idf (snd p) = fst p"
    using set_Map_set [of k v m] assms(1,3) k by (fastforce simp: ok_map_def)
  then show ?thesis
    using assms(1) by (simp add: ok_map_def Map_set_keys [OF k])
qed

lemma ok_map_filter: "ok_map idf n m \<Longrightarrow> ok_map idf n (filter P m)"
  unfolding ok_map_def sorted_wrt_map by (auto intro: sorted_wrt_filter)

lemma ok_map_stored_id: "ok_map idf n m \<Longrightarrow> Map_get m k = Some v \<Longrightarrow> idf v = k"
  by (auto simp: ok_map_def Map_get_def dest!: map_of_SomeD)

lemma id_merge:
  "pc_id pc = None \<Longrightarrow> c_id (merge_Client c pc) = c_id c"
  "pm_id pm = None \<Longrightarrow> m_id (merge_Measurement m pm) = m_id m"
  "pdp_id pd = None \<Longrightarrow> d_id (merge_DietPlan d pd) = d_id d"
  "pa_id pa = None \<Longrightarrow> a_id (merge_Appointment a pa) = a_id a"
  by (simp_all add: merge_Client_def merge_Measurement_def merge_DietPlan_def
        merge_Appointment_def spread_def)

lemma inv_createActivity: "inv s \<Longrightarrow> inv (snd (createActivity now d s))"
  by (simp add: inv_def createActivity_def Let_def ok_map_append)

lemma inv_createUser: "inv s \<Longrightarrow> inv (snd (createUser h now d s))"
  by (simp add: inv_def createUser_def Let_def ok_map_append)

lemma inv_createBlogArticle: "inv s \<Longrightarrow> inv (snd (createBlogArticle now d s))"
  by (simp add: inv_def createBlogArticle_def Let_def ok_map_append)

lemma inv_createClient: "inv s \<Longrightarrow> inv (snd (createClient now now' d s))"
  by (simp add: inv_def createClient_def createActivity_def Let_def ok_map_append)

lemma inv_createMeasurement: "inv s \<Longrightarrow> inv (snd (createMeasurement now d s))"
  by (simp add: inv_def createMeasurement_def createActivity_def Let_def ok_map_append
      split: option.split)

lemma inv_createDietPlan: "inv s \<Longrightarrow> inv (snd (createDietPlan now now' d s))"
  by (simp add: inv_def createDietPlan_def createActivity_def Let_def ok_map_append)

lemma inv_createAppointment: "inv s \<Longrightarrow> inv (snd (createAppointment f now now' d s))"
  by (simp add: inv_def createAppointment_def createActivity_def Let_def ok_map_append)

lemma inv_updateClient: "inv s \<Longrightarrow> pc_id d = None \<Longrightarrow> inv (snd (updateClient i d s))"
  by (auto simp: inv_def updateClient_def Let_def id_merge split: option.split
      intro!: ok_map_update dest: ok_map_stored_id)

lemma inv_updateMeasurement:
  "inv s \<Longrightarrow> pm_id d = None \<Longrightarrow> inv (snd (updateMeasurement i d s))"
  by (auto simp: inv_def updateMeasurement_def Let_def id_merge split: option.split
      intro!: ok_map_update dest: ok_map_stored_id)

lemma inv_updateDietPlan: "inv s \<Longrightarrow> pdp_id d = None \<Longrightarrow> inv (snd (updateDietPlan i d s))"
  by (auto simp: inv_def updateDietPlan_def Let_def id_merge split: option.split
      intro!: ok_map_update dest: ok_map_stored_id)

lemma inv_updateAppointment:
  "inv s \<Longrightarrow> pa_id d = None \<Longrightarrow> inv (snd (updateAppointment i d s))"
  by (auto simp: inv_def updateAppointment_def Let_def id_merge split: option.split
      intro!: ok_map_update dest: ok_map_stored_id)

lemma inv_delete:
  "inv s \<Longrightarrow> inv (snd (deleteClient i s))"
  "inv s \<Longrightarrow> inv (snd (deleteMeasurement i s))"
  "inv s \<Longrightarrow> inv (snd (deleteDietPlan i s))"
  "inv s \<Longrightarrow> inv (snd (deleteAppointment i s))"
  by (simp_all add: inv_def deleteClient_def deleteMeasurement_def deleteDietPlan_def
      deleteAppointment_def Map_delete_def ok_map_filter)

lemma inv_step: "inv s \<Longrightarrow> \<not> rewrites_id x \<Longrightarrow> inv (step h f x s)"
  by (cases x)
     (simp_all add: inv_createActivity inv_createUser inv_createBlogArticle inv_createClient
        inv_createMeasurement inv_createDietPlan inv_createAppointment inv_updateClient
        inv_updateMeasurement inv_updateDietPlan inv_updateAppointment inv_delete)

lemma inv_run: "inv s \<Longrightarrow> \<forall>x \<in> set xs. \<not> rewrites_id x \<Longrightarrow> inv (run h f xs s)"
  by (induction xs arbitrary: s) (simp_all add: inv_step)

lemma inv_empty: "inv empty_storage"
  by (simp add: inv_def empty_storage_def ok_map_def)

lemma inv_addInitial: "inv s \<Longrightarrow> inv (addInitialBlogArticles xs s)"
  by (induction xs s rule: addInitialBlogArticles.induct) (simp_all add: inv_createBlogArticle)

lemma inv_new: "inv (new_MemStorage t1 t2 t3)"
  unfolding new_MemStorage_def by (rule inv_addInitial [OF inv_empty])

subsection \<open>Identifiers\<close>

lemma newkeys_same: "filter (\<lambda>k. k \<notin> fst ` set m) (map fst m) = []"
  by (induction m) auto

lemma newkeys_append:
  "n \<notin> fst ` set m \<Longrightarrow> filter (\<lambda>k. k \<notin> fst ` set m) (map fst (Map_set n v m)) = [n]"
  by (simp add: Map_set_new newkeys_same)

lemma newkeys_update:
  "Map_get m k = Some old \<Longrightarrow>
   filter (\<lambda>k. k \<notin> fst ` set m) (map fst (Map_set k v m)) = []"
proof -
  assume "Map_get m k = Some old"
  then have "k \<in> fst ` set m"
    by (auto simp: Map_get_def dest: map_of_SomeD intro: rev_image_eqI)
  then show ?thesis by (simp add: Map_set_keys newkeys_same)
qed

lemma newkeys_filter:
  "filter (\<lambda>k. k \<notin> fst ` set m) (map fst (filter P m)) = []"
  by (auto simp: filter_empty_conv)

lemmas newkeys = newkeys_same newkeys_append newkeys_update newkeys_filter

lemma assigned_createActivity:
  "keys_inv s \<Longrightarrow> assigned K s (snd (createActivity now d s))
     = [counter K s..counter K (snd (createActivity now d s)) - 1]"
  by (cases K) (simp_all add: assigned_def createActivity_def Let_def newkeys keys_inv_fresh)

lemma assigned_createUser:
  "keys_inv s \<Longrightarrow> assigned K s (snd (createUser h now d s))
     = [counter K s..counter K (snd (createUser h now d s)) - 1]"
  by (cases K) (simp_all add: assigned_def createUser_def Let_def newkeys keys_inv_fresh)

lemma assigned_createBlogArticle:
  "keys_inv s \<Longrightarrow> assigned K s (snd (createBlogArticle now d s))
     = [counter K s..counter K (snd (createBlogArticle now d s)) - 1]"
  by (cases K) (simp_all add: assigned_def createBlogArticle_def Let_def newkeys keys_inv_fresh)

lemma assigned_createClient:
  "keys_inv s \<Longrightarrow> assigned K s (snd (createClient now now' d s))
     = [counter K s..counter K (snd (createClient now now' d s)) - 1]"
  by (cases K)
     (simp_all add: assigned_def createClient_def createActivity_def Let_def newkeys keys_inv_fresh)

lemma assigned_createMeasurement:
  "keys_inv s \<Longrightarrow> assigned K s (snd (createMeasurement now d s))
     = [counter K s..counter K (snd (createMeasurement now d s)) - 1]"
  by (cases K)
     (simp_all add: assigned_def createMeasurement_def createActivity_def Let_def
        newkeys keys_inv_fresh split: option.split)

lemma assigned_createDietPlan:
  "keys_inv s \<Longrightarrow> assigned K s (snd (createDietPlan now now' d s))
     = [counter K s..counter K (snd (createDietPlan now now' d s)) - 1]"
  by (cases K)
     (simp_all add: assigned_def createDietPlan_def createActivity_def Let_def newkeys
        keys_inv_fresh)

lemma assigned_createAppointment:
  "keys_inv s \<Longrightarrow> assigned K s (snd (createAppointment f now now' d s))
     = [counter K s..counter K (snd (createAppointment f now now' d s)) - 1]"
  by (cases K)
     (simp_all add: assigned_def createAppointment_def createActivity_def Let_def
        newkeys keys_inv_fresh)


lemma assigned_updateClient:
  "assigned K s (snd (updateClient i pc s))
     = [counter K s..counter K (snd (updateClient i pc s)) - 1]"
  by (cases K) (simp_all add: assigned_def updateClient_def Let_def newkeys split: option.split)

lemma assigned_updateMeasurement:
  "assigned K s (snd (updateMeasurement i pm s))
     = [counter K s..counter K (snd (updateMeasurement i pm s)) - 1]"
  by (cases K)
     (simp_all add: assigned_def updateMeasurement_def Let_def newkeys split: option.split)

lemma assigned_updateDietPlan:
  "assigned K s (snd (updateDietPlan i pd s))
     = [counter K s..counter K (snd (updateDietPlan i pd s)) - 1]"
  by (cases K)
     (simp_all add: assigned_def updateDietPlan_def Let_def newkeys split: option.split)

lemma assigned_updateAppointment:
  "assigned K s (snd (updateAppointment i pa s))
     = [counter K s..counter K (snd (updateAppointment i pa s)) - 1]"
  by (cases K)
     (simp_all add: assigned_def updateAppointment_def Let_def newkeys split: option.split)

lemma assigned_deleteClient:
  "assigned K s (snd (deleteClient i s)) = [counter K s..counter K (snd (deleteClient i s)) - 1]"
  by (cases K) (simp_all add: assigned_def deleteClient_def Map_delete_def newkeys)

lemma assigned_deleteMeasurement:
  "assigned K s (snd (deleteMeasurement i s))
     = [counter K s..counter K (snd (deleteMeasurement i s)) - 1]"
  by (cases K) (simp_all add: assigned_def deleteMeasurement_def Map_delete_def newkeys)

lemma assigned_deleteDietPlan:
  "assigned K s (snd (deleteDietPlan i s))
     = [counter K s..counter K (snd (deleteDietPlan i s)) - 1]"
  by (cases K) (simp_all add: assigned_def deleteDietPlan_def Map_delete_def newkeys)

lemma assigned_deleteAppointment:
  "assigned K s (snd (deleteAppointment i s))
     = [counter K s..counter K (snd (deleteAppointment i s)) - 1]"
  by (cases K) (simp_all add: assigned_def deleteAppointment_def Map_delete_def newkeys)


lemma assigned_step:
  "keys_inv s \<Longrightarrow> assigned K s (step h f x s) = [counter K s..counter K (step h f x s) - 1]"
  by (cases x)
     (simp_all only: step.simps assigned_createActivity assigned_createUser
        assigned_createBlogArticle assigned_createClient assigned_createMeasurement
        assigned_createDietPlan assigned_createAppointment assigned_updateClient
        assigned_updateMeasurement assigned_updateDietPlan assigned_updateAppointment
        assigned_deleteClient assigned_deleteMeasurement assigned_deleteDietPlan
        assigned_deleteAppointment)

lemma counter_creates:
  "counter K s \<le> counter K (snd (createActivity now ad s))"
  "counter K s \<le> counter K (snd (createUser h now ud s))"
  "counter K s \<le> counter K (snd (createBlogArticle now bd s))"
  "counter K s \<le> counter K (snd (createClient now now' cd s))"
  "counter K s \<le> counter K (snd (createMeasurement now md s))"
  "counter K s \<le> counter K (snd (createDietPlan now now' dd s))"
  "counter K s \<le> counter K (snd (createAppointment f now now' apd s))"
  by (cases K; simp add: createActivity_def createUser_def createBlogArticle_def
        createClient_def createMeasurement_def createDietPlan_def createAppointment_def
        Let_def split: option.split)+

lemma counter_updates:
  "counter K (snd (updateClient i pc s)) = counter K s"
  "counter K (snd (updateMeasurement i pm s)) = counter K s"
  "counter K (snd (updateDietPlan i pd s)) = counter K s"
  "counter K (snd (updateAppointment i pa s)) = counter K s"
  "counter K (snd (deleteClient i s)) = counter K s"
  "counter K (snd (deleteMeasurement i s)) = counter K s"
  "counter K (snd (deleteDietPlan i s)) = counter K s"
  "counter K (snd (deleteAppointment i s)) = counter K s"
  by (cases K; simp add: updateClient_def updateMeasurement_def updateDietPlan_def
        updateAppointment_def deleteClient_def deleteMeasurement_def deleteDietPlan_def
        deleteAppointment_def Map_delete_def Let_def split: option.split)+

lemma counter_step: "counter K s \<le> counter K (step h f x s)"
  by (cases x) (simp_all only: step.simps counter_creates counter_updates order_refl)


lemma counter_run: "counter K s \<le> counter K (run h f xs s)"
proof (induction xs arbitrary: s)
  case Nil
  show ?case by simp
next
  case (Cons x xs)
  have "counter K s \<le> counter K (step h f x s)" by (rule counter_step)
  also have "\<dots> \<le> counter K (run h f xs (step h f x s))" by (rule Cons.IH)
  finally show ?case by simp
qed

lemma upto_join:
  fixes i j k :: int
  assumes "i \<le> j" "j \<le> k"
  shows "[i..j - 1] @ [j..k - 1] = [i..k - 1]"
proof (cases "i = j")
  case True
  then show ?thesis by simp
next
  case False
  with assms have "i \<le> j - 1" "j - 1 \<le> k - 1" by simp_all
  from upto_split2 [OF this] show ?thesis by simp
qed

lemma assigned_run_upto:
  "keys_inv s \<Longrightarrow> assigned_run h f K xs s = [counter K s..counter K (run h f xs s) - 1]"
proof (induction xs arbitrary: s)
  case Nil
  show ?case by simp
next
  case (Cons x xs)
  let ?s' = "step h f x s"
  have "assigned_run h f K (x # xs) s
          = [counter K s..counter K ?s' - 1] @ [counter K ?s'..counter K (run h f xs ?s') - 1]"
    using Cons.prems by (simp add: assigned_step Cons.IH keys_inv_step)
  also have "\<dots> = [counter K s..counter K (run h f xs ?s') - 1]"
    by (rule upto_join [OF counter_step counter_run])
  finally show ?case by simp
qed

lemma keys_below_counter: "keys_inv s \<Longrightarrow> k \<in> set (keys K s) \<Longrightarrow> k < counter K s"
  by (cases K) (auto simp: keys_inv_def keys_ok_def)

lemma keys_ascending: "keys_inv s \<Longrightarrow> sorted_wrt (<) (keys K s)"
  by (cases K) (auto simp: keys_inv_def keys_ok_def)


lemma Map_get_Map_set: "Map_get (Map_set k v m) k = Some v"
  by (simp add: Map_get_def map_of_Map_set)

lemma created_ids:
  "u_id (fst (createUser h now ud s)) = userIdCounter s
   \<and> getUser (snd (createUser h now ud s)) (userIdCounter s) = Some (fst (createUser h now ud s))"
  "c_id (fst (createClient now now' cd s)) = clientIdCounter s
   \<and> getClient (snd (createClient now now' cd s)) (clientIdCounter s)
       = Some (fst (createClient now now' cd s))"
  "m_id (fst (createMeasurement now md s)) = measurementIdCounter s
   \<and> getMeasurement (snd (createMeasurement now md s)) (measurementIdCounter s)
       = Some (fst (createMeasurement now md s))"
  "d_id (fst (createDietPlan now now' dd s)) = dietPlanIdCounter s
   \<and> getDietPlan (snd (createDietPlan now now' dd s)) (dietPlanIdCounter s)
       = Some (fst (createDietPlan now now' dd s))"
  "a_id (fst (createAppointment f now now' apd s)) = appointmentIdCounter s
   \<and> getAppointment (snd (createAppointment f now now' apd s)) (appointmentIdCounter s)
       = Some (fst (createAppointment f now now' apd s))"
  "act_id (fst (createActivity now ad s)) = activityIdCounter s
   \<and> Map_get (activities (snd (createActivity now ad s))) (activityIdCounter s)
       = Some (fst (createActivity now ad s))"
  "b_id (fst (createBlogArticle now bd s)) = blogArticleIdCounter s
   \<and> getBlogArticle (snd (createBlogArticle now bd s)) (blogArticleIdCounter s)
       = Some (fst (createBlogArticle now bd s))"
  by (simp_all add: createUser_def createClient_def createMeasurement_def createDietPlan_def
        createAppointment_def createActivity_def createBlogArticle_def getUser_def
        getClient_def getMeasurement_def getDietPlan_def getAppointment_def
        getBlogArticle_def Let_def Map_get_Map_set split: option.split)


lemma returned_step:
  assumes "keys_inv s"
  shows "map snd (filter (\<lambda>e. fst e = K) (returned h f x s)) = []
         \<or> map snd (filter (\<lambda>e. fst e = K) (returned h f x s)) = assigned K s (step h f x s)"
    and "K \<noteq> KActivity \<Longrightarrow>
         map snd (filter (\<lambda>e. fst e = K) (returned h f x s)) = assigned K s (step h f x s)"
proof -
  note fresh = keys_inv_fresh [OF assms]
  show "map snd (filter (\<lambda>e. fst e = K) (returned h f x s)) = []
         \<or> map snd (filter (\<lambda>e. fst e = K) (returned h f x s)) = assigned K s (step h f x s)"
    using fresh
    by (cases x; cases K)
       (simp_all add: assigned_def createUser_def createClient_def createMeasurement_def
          createDietPlan_def createAppointment_def createActivity_def createBlogArticle_def
          Let_def newkeys split: option.split)
  show "map snd (filter (\<lambda>e. fst e = K) (returned h f x s)) = assigned K s (step h f x s)"
    if "K \<noteq> KActivity"
    using fresh that
    by (cases x; cases K)
       (simp_all add: assigned_def createUser_def createClient_def createMeasurement_def
          createDietPlan_def createAppointment_def createActivity_def createBlogArticle_def
          updateClient_def updateMeasurement_def updateDietPlan_def updateAppointment_def
          deleteClient_def deleteMeasurement_def deleteDietPlan_def deleteAppointment_def
          Map_delete_def Let_def newkeys split: option.split)
qed

lemma returned_run_assigned:
  "keys_inv s \<Longrightarrow> K \<noteq> KActivity \<Longrightarrow>
   returned_run h f K xs s = assigned_run h f K xs s"
  by (induction xs arbitrary: s) (simp_all add: returned_step(2) keys_inv_step)

lemma returned_run_bounds:
  "keys_inv s \<Longrightarrow>
   sorted_wrt (<) (returned_run h f K xs s)
   \<and> set (returned_run h f K xs s) \<subseteq> {counter K s..counter K (run h f xs s) - 1}"
proof (induction xs arbitrary: s)
  case Nil
  show ?case by simp
next
  case (Cons x xs)
  let ?s' = "step h f x s"
  define r where "r = map snd (filter (\<lambda>e. fst e = K) (returned h f x s))"
  define t where "t = returned_run h f K xs ?s'"
  have t: "sorted_wrt (<) t" "set t \<subseteq> {counter K ?s'..counter K (run h f xs ?s') - 1}"
    using Cons.IH [OF keys_inv_step [OF Cons.prems]] by (simp_all add: t_def)
  have r: "r = [] \<or> r = [counter K s..counter K ?s' - 1]"
    using returned_step(1) [OF Cons.prems, of K h f x] assigned_step [OF Cons.prems, of K h f x]
    by (auto simp: r_def)
  have c: "counter K s \<le> counter K ?s'" "counter K ?s' \<le> counter K (run h f xs ?s')"
    by (rule counter_step, rule counter_run)
  have "sorted_wrt (<) (r @ t)"
  proof (cases "r = []")
    case True
    then show ?thesis using t by simp
  next
    case False
    with r have "r = [counter K s..counter K ?s' - 1]" by simp
    then show ?thesis
      using t by (fastforce simp: sorted_wrt_append sorted_wrt_upto)
  qed
  moreover have "set (r @ t) \<subseteq> {counter K s..counter K (run h f xs ?s') - 1}"
    using r t c by auto
  ultimately show ?case by (simp add: r_def t_def)
qed

text \<open>
  C5: over every sequence of store operations from a store built by the constructor and
  the methods, every creation returns an entity whose identifier is a value of its type's
  counter that no earlier entity of the type got: the identifiers returned for a type are
  strictly increasing, they are the keys that newly appear in the type's map, which are
  the successive counter values and exceed every identifier the store held before, so
  none is given twice, also after deletions, and the keys of each map stay distinct. As
  long as no update carries the key \<open>id\<close>, every stored entity carries its key as its
  id.
\<close>

theorem C5_identifiers:
  assumes "inv s"
  shows "assigned_run h f K xs s = [counter K s..counter K (run h f xs s) - 1]
   \<and> sorted_wrt (<) (returned_run h f K xs s)
   \<and> set (returned_run h f K xs s) \<subseteq> set (assigned_run h f K xs s)
   \<and> (K \<noteq> KActivity \<longrightarrow> returned_run h f K xs s = assigned_run h f K xs s)
   \<and> (\<forall>k \<in> set (keys K s). \<forall>k' \<in> set (assigned_run h f K xs s). k < k')
   \<and> sorted_wrt (<) (keys K (run h f xs s))
   \<and> ((\<forall>x \<in> set xs. \<not> rewrites_id x) \<longrightarrow> inv (run h f xs s))"
proof -
  have ki: "keys_inv s"
    using assms(1) by (rule inv_keys_inv)
  have a: "assigned_run h f K xs s = [counter K s..counter K (run h f xs s) - 1]"
    using ki by (rule assigned_run_upto)
  have b: "\<forall>k \<in> set (keys K s). \<forall>k' \<in> set (assigned_run h f K xs s). k < k'"
    unfolding a using keys_below_counter [OF ki, of _ K] by fastforce
  have r: "sorted_wrt (<) (returned_run h f K xs s)"
    "set (returned_run h f K xs s) \<subseteq> set (assigned_run h f K xs s)"
    using returned_run_bounds [OF ki, of h f K xs] unfolding a by simp_all
  have e: "K \<noteq> KActivity \<longrightarrow> returned_run h f K xs s = assigned_run h f K xs s"
    using ki by (simp add: returned_run_assigned)
  have k: "sorted_wrt (<) (keys K (run h f xs s))"
    using keys_inv_run [OF ki] by (rule keys_ascending)
  show ?thesis
    using a b r e k inv_run [OF assms] by blast
qed

text \<open>C5 at the constructor's store: clients 1 and 2 are created and deleted, the next
  client is returned with id 3; the constructor's three articles have ids 1, 2, 3.\<close>

theorem C5_witness:
  "inv (new_MemStorage 0 0 0)
   \<and> list_all (\<lambda>x. \<not> rewrites_id x) reuse_ops
   \<and> returned_run id format_date KClient reuse_ops (new_MemStorage 0 0 0) = [1, 2, 3]
   \<and> assigned_run id format_date KClient reuse_ops (new_MemStorage 0 0 0) = [1, 2, 3]
   \<and> keys KClient (run id format_date reuse_ops (new_MemStorage 0 0 0)) = [3]
   \<and> assigned_run id format_date KActivity reuse_ops (new_MemStorage 0 0 0) = [1, 2, 3]
   \<and> returned_run id format_date KActivity reuse_ops (new_MemStorage 0 0 0) = []
   \<and> keys KBlogArticle (new_MemStorage 0 0 0) = [1, 2, 3]"
proof -
  have i: "inv (new_MemStorage 0 0 0)" by (rule inv_new)
  have n: "list_all (\<lambda>x. \<not> rewrites_id x) reuse_ops" by code_simp
  then have n': "\<forall>x \<in> set reuse_ops. \<not> rewrites_id x"
    by (simp add: list_all_iff)
  have c: "counter KClient (new_MemStorage 0 0 0) = 1"
    "counter KClient (run id format_date reuse_ops (new_MemStorage 0 0 0)) = 4"
    "counter KActivity (new_MemStorage 0 0 0) = 1"
    "counter KActivity (run id format_date reuse_ops (new_MemStorage 0 0 0)) = 4"
    by code_simp+
  have k: "keys KClient (run id format_date reuse_ops (new_MemStorage 0 0 0)) = [3]"
    "keys KBlogArticle (new_MemStorage 0 0 0) = [1, 2, 3]"
    "returned_run id format_date KActivity reuse_ops (new_MemStorage 0 0 0) = []"
    by code_simp+
  have u: "[1..3] = [1, 2, 3::int]" by code_simp
  from C5_identifiers [OF i, of id format_date KClient reuse_ops]
       C5_identifiers [OF i, of id format_date KActivity reuse_ops] i n n' c k u
  show ?thesis by simp
qed

subsection \<open>The activity recorder\<close>

text \<open>
  C2, as stated, fails: \<open>createMeasurement\<close> for a client id that resolves to no client
  stores the measurement and records no activity (the activity's userId is taken from
  the client).
\<close>

theorem C2_counterexample:
  "getClient (new_MemStorage 0 0 0) 7 = None
   \<and> getMeasurement (snd (createMeasurement 5 (sample_measurement 7 (DateValue 100))
                           (new_MemStorage 0 0 0))) 1
       = Some (fst (createMeasurement 5 (sample_measurement 7 (DateValue 100))
                     (new_MemStorage 0 0 0)))
   \<and> activities (snd (createMeasurement 5 (sample_measurement 7 (DateValue 100))
                        (new_MemStorage 0 0 0)))
       = activities (new_MemStorage 0 0 0)"
  by code_simp

text \<open>
  C2, amended: in a store built by the constructor and the methods, creating a client, a
  diet plan or an appointment appends exactly one activity, whose description carries
  the client's name, or the placeholder name when the diet plan's or appointment's client
  id resolves to no client; the diet plan or appointment is stored all the same. Creating a
  measurement appends exactly one activity when its client id resolves to a client and
  none when it does not; the measurement is stored in both cases.
\<close>

theorem C2_recorder:
  assumes "keys_inv s"
  shows "activities (snd (createClient now now' cd s))
      = activities s @ [(activityIdCounter s,
          \<lparr> act_id = activityIdCounter s, act_userId = ic_userId cd,
            act_clientId = Some (clientIdCounter s), act_type = ''client'',
            act_description =
              ''Yeni dan'' @ [CHR 0xC4, CHR 0xB1, CHR 0xC5, CHR 0x9F] @ ''an eklendi: ''
              @ ic_fullName cd,
            act_createdAt = now' \<rparr>)]
   \<and> activities (snd (createDietPlan now now' dd s))
      = activities s @ [(activityIdCounter s,
          \<lparr> act_id = activityIdCounter s, act_userId = idp_userId dd,
            act_clientId = Some (idp_clientId dd), act_type = ''diet_plan'',
            act_description =
              ''Yeni diyet plan'' @ [CHR 0xC4, CHR 0xB1] @ '' olu'' @ [CHR 0xC5, CHR 0x9F]
              @ ''turuldu: ''
              @ (case getClient s (idp_clientId dd) of
                   Some client \<Rightarrow> c_fullName client | None \<Rightarrow> unknown_client)
              @ '' i'' @ [CHR 0xC3, CHR 0xA7] @ ''in '' @ idp_name dd,
            act_createdAt = now' \<rparr>)]
   \<and> getDietPlan (snd (createDietPlan now now' dd s)) (dietPlanIdCounter s)
      = Some (fst (createDietPlan now now' dd s))
   \<and> activities (snd (createAppointment f now now' apd s))
      = activities s @ [(activityIdCounter s,
          \<lparr> act_id = activityIdCounter s, act_userId = ia_userId apd,
            act_clientId = Some (ia_clientId apd), act_type = ''appointment'',
            act_description =
              ''Yeni randevu olu'' @ [CHR 0xC5, CHR 0x9F] @ ''turuldu: ''
              @ (case getClient s (ia_clientId apd) of
                   Some client \<Rightarrow> c_fullName client | None \<Rightarrow> unknown_client)
              @ '' ile '' @ f (ia_date apd),
            act_createdAt = now' \<rparr>)]
   \<and> getAppointment (snd (createAppointment f now now' apd s)) (appointmentIdCounter s)
      = Some (fst (createAppointment f now now' apd s))
   \<and> activities (snd (createMeasurement now md s))
      = (case getClient s (im_clientId md) of
           Some client \<Rightarrow>
             activities s @ [(activityIdCounter s,
               \<lparr> act_id = activityIdCounter s, act_userId = c_userId client,
                 act_clientId = Some (im_clientId md), act_type = ''measurement'',
                 act_description =
                   ''Yeni '' @ [CHR 0xC3, CHR 0xB6] @ ''l''
                   @ [CHR 0xC3, CHR 0xA7, CHR 0xC3, CHR 0xBC] @ ''m kaydedildi: ''
                   @ c_fullName client @ '' i'' @ [CHR 0xC3, CHR 0xA7] @ ''in'',
                 act_createdAt = now \<rparr>)]
         | None \<Rightarrow> activities s)
   \<and> getMeasurement (snd (createMeasurement now md s)) (measurementIdCounter s)
      = Some (fst (createMeasurement now md s))"
proof -
  have fresh: "activityIdCounter s \<notin> fst ` set (activities s)"
    using assms by (rule keys_inv_fresh)
  have 1: "activities (snd (createClient now now' cd s))
      = activities s @ [(activityIdCounter s,
          \<lparr> act_id = activityIdCounter s, act_userId = ic_userId cd,
            act_clientId = Some (clientIdCounter s), act_type = ''client'',
            act_description =
              ''Yeni dan'' @ [CHR 0xC4, CHR 0xB1, CHR 0xC5, CHR 0x9F] @ ''an eklendi: ''
              @ ic_fullName cd,
            act_createdAt = now' \<rparr>)]"
    using fresh by (simp add: createClient_def createActivity_def Let_def Map_set_new)
  have 2: "activities (snd (createDietPlan now now' dd s))
      = activities s @ [(activityIdCounter s,
          \<lparr> act_id = activityIdCounter s, act_userId = idp_userId dd,
            act_clientId = Some (idp_clientId dd), act_type = ''diet_plan'',
            act_description =
              ''Yeni diyet plan'' @ [CHR 0xC4, CHR 0xB1] @ '' olu'' @ [CHR 0xC5, CHR 0x9F]
              @ ''turuldu: ''
              @ (case getClient s (idp_clientId dd) of
                   Some client \<Rightarrow> c_fullName client | None \<Rightarrow> unknown_client)
              @ '' i'' @ [CHR 0xC3, CHR 0xA7] @ ''in '' @ idp_name dd,
            act_createdAt = now' \<rparr>)]"
    using fresh
    by (simp add: createDietPlan_def createActivity_def getClient_def Let_def Map_set_new)
  have 3: "activities (snd (createAppointment f now now' apd s))
      = activities s @ [(activityIdCounter s,
          \<lparr> act_id = activityIdCounter s, act_userId = ia_userId apd,
            act_clientId = Some (ia_clientId apd), act_type = ''appointment'',
            act_description =
              ''Yeni randevu olu'' @ [CHR 0xC5, CHR 0x9F] @ ''turuldu: ''
              @ (case getClient s (ia_clientId apd) of
                   Some client \<Rightarrow> c_fullName client | None \<Rightarrow> unknown_client)
              @ '' ile '' @ f (ia_date apd),
            act_createdAt = now' \<rparr>)]"
    using fresh
    by (simp add: createAppointment_def createActivity_def getClient_def Let_def Map_set_new)
  have 4: "activities (snd (createMeasurement now md s))
      = (case getClient s (im_clientId md) of
           Some client \<Rightarrow>
             activities s @ [(activityIdCounter s,
               \<lparr> act_id = activityIdCounter s, act_userId = c_userId client,
                 act_clientId = Some (im_clientId md), act_type = ''measurement'',
                 act_description =
                   ''Yeni '' @ [CHR 0xC3, CHR 0xB6] @ ''l''
                   @ [CHR 0xC3, CHR 0xA7, CHR 0xC3, CHR 0xBC] @ ''m kaydedildi: ''
                   @ c_fullName client @ '' i'' @ [CHR 0xC3, CHR 0xA7] @ ''in'',
                 act_createdAt = now \<rparr>)]
         | None \<Rightarrow> activities s)"
    using fresh
    by (simp add: createMeasurement_def createActivity_def getClient_def Let_def Map_set_new
        split: option.split)
  show ?thesis
    using 1 2 3 4 created_ids(3,4,5) by simp
qed


text \<open>C2 at the sample store: a diet plan for the unknown client 99 is recorded under the
  placeholder name.\<close>

theorem C2_witness:
  "keys_inv listing_store
   \<and> getClient listing_store 99 = None
   \<and> length (activities (snd (createDietPlan 20 21 (sample_dietPlan 1 99 ''Plan'')
                                listing_store)))
       = Suc (length (activities listing_store))
   \<and> act_description (snd (last (activities
         (snd (createDietPlan 20 21 (sample_dietPlan 1 99 ''Plan'') listing_store)))))
       = ''Yeni diyet plan'' @ [CHR 0xC4, CHR 0xB1] @ '' olu'' @ [CHR 0xC5, CHR 0x9F]
         @ ''turuldu: '' @ unknown_client @ '' i'' @ [CHR 0xC3, CHR 0xA7] @ ''in Plan''"
proof -
  have h: "keys_inv listing_store" by code_simp
  have g: "getClient listing_store 99 = None" by code_simp
  from C2_recorder [OF h, of 20 21 "sample_client 1 ''x''" "sample_dietPlan 1 99 ''Plan''"
         format_date "sample_appointment 1 99 5" "sample_measurement 99 DateNull"] h g
  show ?thesis by (simp add: sample_dietPlan_def)
qed

subsection \<open>Sorted and bounded listings\<close>

lemma sorted_desc: "sorted (map (\<lambda>x. - f x) xs) = sorted (rev (map f xs))" for f :: "'a \<Rightarrow> int"
  by (induction xs) (auto simp: sorted_append)

lemma sort_desc_sorted: "sorted (rev (map f (sort_key (\<lambda>x. - f x) xs)))" for f :: "'a \<Rightarrow> int"
  using sorted_sort_key [of "\<lambda>x. - f x" xs] by (simp add: sorted_desc)

lemma sort_desc_stable:
  "filter (\<lambda>x. f x = t) (sort_key (\<lambda>x. - f x) xs) = filter (\<lambda>x. f x = t) xs"
  for f :: "'a \<Rightarrow> int"
  using sort_key_stable [of "\<lambda>x. - f x" "- t" xs] by simp

lemma sort_desc_strict:
  fixes f :: "'a \<Rightarrow> int"
  assumes "distinct (map f xs)"
  shows "sorted_wrt (\<lambda>a b. f b < f a) (sort_key (\<lambda>x. - f x) xs)"
proof -
  let ?ys = "sort_key (\<lambda>x. - f x) xs"
  have "mset (map f ?ys) = mset (map f xs)" by simp
  then have d: "distinct (map f ?ys)"
    using assms by (metis mset_eq_imp_distinct_iff)
  have "distinct (map (\<lambda>x. - f x) ?ys)"
    using d by (simp add: distinct_map inj_on_def)
  then have "sorted_wrt (<) (map (\<lambda>x. - f x) ?ys)"
    using sorted_sort_key [of "\<lambda>x. - f x" xs] by (simp add: strict_sorted_iff)
  then show ?thesis by (simp add: sorted_wrt_map)
qed

lemma top_two:
  assumes "sorted_wrt (\<lambda>a b. f b < f a) xs" "2 \<le> length xs"
  shows "\<exists>a b. take 2 xs = [a, b] \<and> f b < f a \<and> (\<forall>c \<in> set xs - {a, b}. f c < f b)"
proof -
  obtain a b rest where xs: "xs = a # b # rest"
    using assms(2) by (cases xs; cases "tl xs") auto
  show ?thesis
    using assms(1) unfolding xs by (intro exI [of _ a] exI [of _ b]) auto
qed



text \<open>
  C3, as stated, fails in its last part: activities are ordered by their createdAt
  timestamp and the sort is stable, so of five activities created within one millisecond
  the limit 2 returns the two created first, not the two most recently created.
\<close>

theorem C3_counterexample:
  "map act_id (Map_values (activities tie_store)) = [1, 2, 3, 4, 5]
   \<and> map act_userId (Map_values (activities tie_store)) = [1, 1, 1, 1, 1]
   \<and> map act_id (getActivitiesForUser sample_engine tie_store 1 (Some 2)) = [1, 2]"
  by code_simp

text \<open>
  C3, amended: for every user id, \<open>getActivitiesForUser\<close> (and \<open>getBlogArticles\<close>) returns
  the full listing, newest createdAt (publishedAt) first and entries of equal timestamp
  in insertion order, when the limit is absent, zero or negative, and exactly the first
  \<open>limit\<close> elements of that listing when the limit is positive; for a user with 5
  activities of pairwise different createdAt and limit 2 the result is exactly the 2
  activities with the latest createdAt, the later one first.
\<close>

theorem C3_limit:
  "getActivitiesForUser engine s u (Some n)
     = (if 0 < n then take (nat n) (getActivitiesForUser engine s u None)
        else getActivitiesForUser engine s u None)
   \<and> mset (getActivitiesForUser engine s u None)
       = mset (filter (\<lambda>a. act_userId a = u) (Map_values (activities s)))
   \<and> sorted (rev (map act_createdAt (getActivitiesForUser engine s u None)))
   \<and> (\<forall>t. filter (\<lambda>a. act_createdAt a = t) (getActivitiesForUser engine s u None)
          = filter (\<lambda>a. act_createdAt a = t)
              (filter (\<lambda>a. act_userId a = u) (Map_values (activities s))))
   \<and> getBlogArticles engine' s (Some n)
       = (if 0 < n then take (nat n) (getBlogArticles engine' s None) else getBlogArticles engine' s None)
   \<and> mset (getBlogArticles engine' s None) = mset (Map_values (blogArticles s))
   \<and> sorted (rev (map b_publishedAt (getBlogArticles engine' s None)))
   \<and> (\<forall>t. filter (\<lambda>a. b_publishedAt a = t) (getBlogArticles engine' s None)
          = filter (\<lambda>a. b_publishedAt a = t) (Map_values (blogArticles s)))
   \<and> (length (filter (\<lambda>a. act_userId a = u) (Map_values (activities s))) = 5
        \<and> distinct (map act_createdAt
                       (filter (\<lambda>a. act_userId a = u) (Map_values (activities s))))
      \<longrightarrow> (\<exists>a b. getActivitiesForUser engine s u (Some 2) = [a, b]
             \<and> a \<in> set (filter (\<lambda>a. act_userId a = u) (Map_values (activities s)))
             \<and> b \<in> set (filter (\<lambda>a. act_userId a = u) (Map_values (activities s)))
             \<and> act_createdAt b < act_createdAt a
             \<and> (\<forall>c \<in> set (filter (\<lambda>a. act_userId a = u) (Map_values (activities s)))
                       - {a, b}.
                   act_createdAt c < act_createdAt b)))"
proof -
  let ?acts = "filter (\<lambda>a. act_userId a = u) (Map_values (activities s))"
  let ?full = "sort_key (\<lambda>a. - act_createdAt a) ?acts"
  have full: "getActivitiesForUser engine s u None = ?full"
    by (simp add: getActivitiesForUser_def apply_limit_def collect_filter Array_sort_desc)
  have lim: "getActivitiesForUser engine s u (Some n)
     = (if 0 < n then take (nat n) (getActivitiesForUser engine s u None)
        else getActivitiesForUser engine s u None)"
    by (simp add: getActivitiesForUser_def apply_limit_def)
  have blog: "getBlogArticles engine' s None
                = sort_key (\<lambda>a. - b_publishedAt a) (Map_values (blogArticles s))"
    by (simp add: getBlogArticles_def apply_limit_def Array_sort_desc)
  have blim: "getBlogArticles engine' s (Some n)
       = (if 0 < n then take (nat n) (getBlogArticles engine' s None) else getBlogArticles engine' s None)"
    by (simp add: getBlogArticles_def apply_limit_def)
  have two: "\<exists>a b. getActivitiesForUser engine s u (Some 2) = [a, b]
             \<and> a \<in> set ?acts \<and> b \<in> set ?acts
             \<and> act_createdAt b < act_createdAt a
             \<and> (\<forall>c \<in> set ?acts - {a, b}. act_createdAt c < act_createdAt b)"
    if len: "length ?acts = 5" and dist: "distinct (map act_createdAt ?acts)"
  proof -
    have "sorted_wrt (\<lambda>a b. act_createdAt b < act_createdAt a) ?full"
      using dist by (rule sort_desc_strict)
    moreover have "2 \<le> length ?full"
      using len by simp
    ultimately obtain a b where ab: "take 2 ?full = [a, b]"
      "act_createdAt b < act_createdAt a"
      "\<forall>c \<in> set ?full - {a, b}. act_createdAt c < act_createdAt b"
      using top_two [of act_createdAt ?full] by blast
    have "set [a, b] \<subseteq> set ?full"
      unfolding ab(1) [symmetric] by (rule set_take_subset)
    then have "a \<in> set ?acts" "b \<in> set ?acts" by simp_all
    moreover have "getActivitiesForUser engine s u (Some 2) = [a, b]"
      using ab(1) by (simp add: getActivitiesForUser_def apply_limit_def collect_filter
          Array_sort_desc)
    ultimately show ?thesis
      using ab(2,3) by (intro exI [of _ a] exI [of _ b]) simp
  qed
  show ?thesis
    unfolding lim blim
    using two by (simp add: full blog sort_desc_sorted sort_desc_stable)
qed

text \<open>C3 at a store whose five activities were created one millisecond apart: limit 2
  returns activities 5 and 4, limit 0 all five.\<close>

theorem C3_witness:
  "length (filter (\<lambda>a. act_userId a = 1) (Map_values (activities recent_store))) = 5
   \<and> distinct (map act_createdAt
        (filter (\<lambda>a. act_userId a = 1) (Map_values (activities recent_store))))
   \<and> map act_id (getActivitiesForUser sample_engine recent_store 1 (Some 2)) = [5, 4]
   \<and> map act_id (getActivitiesForUser sample_engine recent_store 1 (Some 0)) = [5, 4, 3, 2, 1]"
proof -
  have a: "length (filter (\<lambda>a. act_userId a = 1) (Map_values (activities recent_store))) = 5"
    "distinct (map act_createdAt
        (filter (\<lambda>a. act_userId a = 1) (Map_values (activities recent_store))))"
    "map act_id (getActivitiesForUser sample_engine recent_store 1 (Some 2)) = [5, 4]"
    "map act_id (getActivitiesForUser sample_engine recent_store 1 None) = [5, 4, 3, 2, 1]"
    by code_simp+
  from C3_limit [where s = recent_store and u = 1 and n = 0 and engine = sample_engine] a
  show ?thesis by simp
qed


lemma sorted_rev_take: "sorted (rev (map f xs)) \<Longrightarrow> sorted (rev (map f (take n xs)))"
  for f :: "'a \<Rightarrow> int"
proof -
  assume "sorted (rev (map f xs))"
  then have "sorted_wrt (\<lambda>x y. y \<le> x) (map f xs)"
    by (simp add: sorted_wrt_rev)
  then have "sorted_wrt (\<lambda>x y. y \<le> x) (take n (map f xs))"
    by (rule sorted_wrt_take)
  then show ?thesis
    by (simp add: sorted_wrt_rev take_map)
qed

lemma sorted_rev_limit:
  "sorted (rev (map f xs)) \<Longrightarrow> sorted (rev (map f (apply_limit limit xs)))"
  for f :: "'a \<Rightarrow> int"
  by (cases limit) (simp_all add: apply_limit_def sorted_rev_take)

lemma three_descending:
  fixes ts :: "int list"
  assumes "sorted (rev ts)" "mset ts = {#d1, d2, d3#}" "d1 < d2" "d2 < d3"
  shows "ts = [d3, d2, d1]"
proof -
  have "mset (rev ts) = mset [d1, d2, d3]"
    using assms(2) by simp
  then have "sort [d1, d2, d3] = rev ts"
    using assms(1) by (rule properties_for_sort)
  then have "rev ts = [d1, d2, d3]"
    using assms(3,4) by simp
  then have "rev (rev ts) = rev [d1, d2, d3]" by (rule arg_cong)
  then show ?thesis by simp
qed


lemma measurement_sort:
  assumes "\<forall>m \<in> set ms. getTime (m_date m) \<noteq> None"
  shows "Array_sort engine (\<lambda>a b. case (getTime (m_date b), getTime (m_date a)) of
                              (Some tb, Some ta) \<Rightarrow> Some (tb - ta)
                            | _ \<Rightarrow> None) ms
         = sort_key (\<lambda>m. - date_time m) ms"
proof -
  let ?c = "\<lambda>a b. case (getTime (m_date b), getTime (m_date a)) of
                    (Some tb, Some ta) \<Rightarrow> Some (tb - ta)
                  | _ \<Rightarrow> None"
  have v: "cmp_value (?c x y) = date_time y - date_time x"
    if xy: "x \<in> set ms" "y \<in> set ms" for x y
  proof -
    obtain tx ty where "getTime (m_date x) = Some tx" "getTime (m_date y) = Some ty"
      using assms xy by fastforce
    then show ?thesis
      by (simp add: cmp_value_def date_time_def)
  qed
  have "consistent ?c ms"
    unfolding consistent_def using v by (intro ballI) simp
  moreover have "stable_sort ?c ms = sort_key (\<lambda>m. - date_time m) ms"
    using v by (intro stable_sort_key ballI) simp
  ultimately show ?thesis
    by (simp add: Array_sort_consistent)
qed

text \<open>
  C4 fails on the code: the date of a measurement is optional on insert and
  \<open>createMeasurement\<close> fills in none, so a measurement can be stored without one. Its time
  is \<open>NaN\<close>, the comparator answers \<open>NaN\<close> against every other measurement and the sort
  reads that as equal. Measurements dated 100, none, 200 are listed in that order, and
  measurements dated 100, 200, none, 300 are listed as 300, 200, 100, none, whatever the
  engine does from 64 elements on.
\<close>

theorem C4_undated:
  "map m_clientId (Map_values (measurements undated_store)) = [1, 1, 1]
   \<and> map m_date (Map_values (measurements undated_store))
       = [DateValue 100, DateUndefined, DateValue 200]
   \<and> map m_date (getMeasurementsForClient engine undated_store 1)
       = [DateValue 100, DateUndefined, DateValue 200]
   \<and> map m_clientId (Map_values (measurements undated_store4)) = [1, 1, 1, 1]
   \<and> map m_date (Map_values (measurements undated_store4))
       = [DateValue 100, DateValue 200, DateUndefined, DateValue 300]
   \<and> map m_id (getMeasurementsForClient engine undated_store4 1) = [4, 2, 1, 3]"
  by code_simp

text \<open>
  What the listing does achieve: when each measurement of the client has a date (a null
  date counting as the epoch) the listing holds exactly the client's measurements, by date
  descending and measurements of equal date in insertion order; three measurements dated
  D1 < D2 < D3 come back as [D3, D2, D1]. Activities and articles always carry their
  timestamp and are sorted descending by it, under every limit.
\<close>

lemma measurements_dated:
  "((\<forall>m \<in> set (filter (\<lambda>m. m_clientId m = c) (Map_values (measurements s))).
        getTime (m_date m) \<noteq> None)
      \<longrightarrow> mset (getMeasurementsForClient engine s c)
            = mset (filter (\<lambda>m. m_clientId m = c) (Map_values (measurements s)))
          \<and> sorted (rev (map date_time (getMeasurementsForClient engine s c)))
          \<and> (\<forall>t. filter (\<lambda>m. date_time m = t) (getMeasurementsForClient engine s c)
                 = filter (\<lambda>m. date_time m = t)
                     (filter (\<lambda>m. m_clientId m = c) (Map_values (measurements s)))))
   \<and> (d1 < d2 \<and> d2 < d3
        \<and> mset (map m_date (filter (\<lambda>m. m_clientId m = c) (Map_values (measurements s))))
            = {#DateValue d1, DateValue d2, DateValue d3#}
      \<longrightarrow> map m_date (getMeasurementsForClient engine s c)
            = [DateValue d3, DateValue d2, DateValue d1])
   \<and> sorted (rev (map act_createdAt (getActivitiesForUser engine' s u limit)))
   \<and> sorted (rev (map b_publishedAt (getBlogArticles engine'' s limit)))"
proof -
  let ?ms = "filter (\<lambda>m. m_clientId m = c) (Map_values (measurements s))"
  let ?res = "getMeasurementsForClient engine s c"
  have res: "?res = sort_key (\<lambda>m. - date_time m) ?ms"
    if "\<forall>m \<in> set ?ms. getTime (m_date m) \<noteq> None"
    using measurement_sort [OF that]
    by (simp add: getMeasurementsForClient_def collect_filter)
  have perm: "mset ?res = mset ?ms"
    if "\<forall>m \<in> set ?ms. getTime (m_date m) \<noteq> None"
    using res [OF that] by simp
  have three: "map m_date ?res = [DateValue d3, DateValue d2, DateValue d1]"
    if lt: "d1 < d2" "d2 < d3"
      and ds: "mset (map m_date ?ms) = {#DateValue d1, DateValue d2, DateValue d3#}"
  proof -
    have "set (map m_date ?ms) = set_mset {#DateValue d1, DateValue d2, DateValue d3#}"
      unfolding ds [symmetric] by simp
    then have vals: "\<forall>m \<in> set ?ms. m_date m \<in> {DateValue d1, DateValue d2, DateValue d3}"
      by auto
    then have dated: "\<forall>m \<in> set ?ms. getTime (m_date m) \<noteq> None"
      by fastforce
    have bk: "\<forall>m \<in> set ?ms. m_date m = DateValue (date_time m)"
      using vals by (fastforce simp: date_time_def)
    have "image_mset (\<lambda>d. case getTime d of Some t \<Rightarrow> t | None \<Rightarrow> 0)
            (mset (map m_date ?ms))
          = image_mset (\<lambda>d. case getTime d of Some t \<Rightarrow> t | None \<Rightarrow> 0)
              {#DateValue d1, DateValue d2, DateValue d3#}"
      using ds by simp
    then have "mset (map date_time ?ms) = {#d1, d2, d3#}"
      by (simp add: date_time_def [abs_def] multiset.map_comp comp_def)
    then have "mset (map date_time ?res) = {#d1, d2, d3#}"
      using perm [OF dated] by (metis mset_map)
    moreover have "sorted (rev (map date_time ?res))"
      unfolding res [OF dated] by (rule sort_desc_sorted)
    ultimately have "map date_time ?res = [d3, d2, d1]"
      using lt by (intro three_descending)
    moreover have "map m_date ?res = map DateValue (map date_time ?res)"
    proof -
      have "set ?res = set ?ms" using perm [OF dated] by (rule mset_eq_setD)
      then show ?thesis using bk by simp
    qed
    ultimately show ?thesis by simp
  qed
  have acts: "sorted (rev (map act_createdAt (getActivitiesForUser engine' s u limit)))"
    by (simp add: getActivitiesForUser_def collect_filter Array_sort_desc sorted_rev_limit
        sort_desc_sorted)
  have blog: "sorted (rev (map b_publishedAt (getBlogArticles engine'' s limit)))"
    by (simp add: getBlogArticles_def Array_sort_desc sorted_rev_limit sort_desc_sorted)
  show ?thesis
    using perm res three acts blog by (simp add: sort_desc_sorted sort_desc_stable)
qed


text \<open>At a client whose measurements were created with the dates 200, 100, 300.\<close>

lemma measurements_dated_witness:
  "map m_date (filter (\<lambda>m. m_clientId m = 1) (Map_values (measurements dated_store)))
     = [DateValue 200, DateValue 100, DateValue 300]
   \<and> map m_date (getMeasurementsForClient sample_engine dated_store 1)
       = [DateValue 300, DateValue 200, DateValue 100]
   \<and> sorted (rev (map date_time (getMeasurementsForClient sample_engine dated_store 1)))"
proof -
  have d: "\<forall>m \<in> set (filter (\<lambda>m. m_clientId m = 1) (Map_values (measurements dated_store))).
             getTime (m_date m) \<noteq> None"
    by code_simp
  have l: "map m_date (filter (\<lambda>m. m_clientId m = 1) (Map_values (measurements dated_store)))
             = [DateValue 200, DateValue 100, DateValue 300]"
    by code_simp
  have m: "mset (map m_date (filter (\<lambda>m. m_clientId m = 1)
                               (Map_values (measurements dated_store))))
             = {#DateValue 100, DateValue 200, DateValue 300#}"
    unfolding l by simp
  from measurements_dated [of 1 dated_store sample_engine 100 200 300] d l m
  show ?thesis by simp
qed


subsection \<open>Ownership of clients\<close>

lemma Map_get_filter:
  "Map_get (filter (\<lambda>p. fst p \<noteq> i) m) k = (if k = i then None else Map_get m k)"
  by (induction m) (auto simp: Map_get_def)

lemma getClient_deleteClient:
  "getClient (snd (deleteClient i s)) k = (if k = i then None else getClient s k)"
  by (simp add: getClient_def deleteClient_def Map_delete_def Map_get_filter)

lemma getClient_updateClient:
  "getClient s i = Some client \<Longrightarrow>
   updateClient i d s
     = (Some (merge_Client client d),
        s\<lparr> clients := Map_set i (merge_Client client d) (clients s) \<rparr>)"
  by (simp add: getClient_def updateClient_def Let_def)

text \<open>
  C6: for an authenticated request to read, update or delete a client by id, with
  \<open>userId\<close> the authenticated principal: when no client has that id (or the id does not
  parse) the response is 404 and the store is unchanged; when the client exists and
  belongs to another user the response is 403 with a message only, and the store is
  unchanged; only when the owner matches is the client returned (200), merged and
  returned (200), or deleted (204).
\<close>

theorem C6_ownership:
  "((case i of None \<Rightarrow> None | Some n \<Rightarrow> getClient s n) = None \<longrightarrow>
      get_client userId i s = (\<lparr> status = 404, body = Message client_not_found \<rparr>, s)
      \<and> put_client userId i req_body s
          = (\<lparr> status = 404, body = Message client_not_found \<rparr>, s)
      \<and> delete_client userId i s
          = (\<lparr> status = 404, body = Message client_not_found \<rparr>, s))
   \<and> (i = Some n \<and> getClient s n = Some client \<and> c_userId client \<noteq> userId \<longrightarrow>
      get_client userId i s = (\<lparr> status = 403, body = Message no_access \<rparr>, s)
      \<and> put_client userId i req_body s = (\<lparr> status = 403, body = Message no_update \<rparr>, s)
      \<and> delete_client userId i s = (\<lparr> status = 403, body = Message no_delete \<rparr>, s))
   \<and> (i = Some n \<and> getClient s n = Some client \<and> c_userId client = userId \<longrightarrow>
      get_client userId i s = (\<lparr> status = 200, body = JsonClient client \<rparr>, s)
      \<and> put_client userId i req_body s
          = (\<lparr> status = 200, body = JsonClient (merge_Client client req_body) \<rparr>,
             s\<lparr> clients := Map_set n (merge_Client client req_body) (clients s) \<rparr>)
      \<and> fst (delete_client userId i s) = \<lparr> status = 204, body = NoBody \<rparr>
      \<and> getClient (snd (delete_client userId i s)) n = None)"
proof (intro conjI impI)
  assume "(case i of None \<Rightarrow> None | Some n \<Rightarrow> getClient s n) = None"
  then show
    "get_client userId i s = (\<lparr> status = 404, body = Message client_not_found \<rparr>, s)"
    "put_client userId i req_body s = (\<lparr> status = 404, body = Message client_not_found \<rparr>, s)"
    "delete_client userId i s = (\<lparr> status = 404, body = Message client_not_found \<rparr>, s)"
    by (cases i; simp add: get_client_def put_client_def delete_client_def)+
next
  assume "i = Some n \<and> getClient s n = Some client \<and> c_userId client \<noteq> userId"
  then show
    "get_client userId i s = (\<lparr> status = 403, body = Message no_access \<rparr>, s)"
    "put_client userId i req_body s = (\<lparr> status = 403, body = Message no_update \<rparr>, s)"
    "delete_client userId i s = (\<lparr> status = 403, body = Message no_delete \<rparr>, s)"
    by (simp_all add: get_client_def put_client_def delete_client_def)
next
  assume a: "i = Some n \<and> getClient s n = Some client \<and> c_userId client = userId"
  then show "get_client userId i s = (\<lparr> status = 200, body = JsonClient client \<rparr>, s)"
    by (simp add: get_client_def)
  from a show "put_client userId i req_body s
          = (\<lparr> status = 200, body = JsonClient (merge_Client client req_body) \<rparr>,
             s\<lparr> clients := Map_set n (merge_Client client req_body) (clients s) \<rparr>)"
    by (simp add: put_client_def getClient_updateClient)
  from a show "fst (delete_client userId i s) = \<lparr> status = 204, body = NoBody \<rparr>"
    by (simp add: delete_client_def)
  from a show "getClient (snd (delete_client userId i s)) n = None"
    by (simp add: delete_client_def getClient_deleteClient)
qed

text \<open>C6 at the sample store, for user 1: client 9 does not exist, client 2 belongs to
  user 2, client 1 is their own.\<close>

theorem C6_witness:
  "getClient listing_store 9 = None
   \<and> status (fst (get_client 1 (Some 9) listing_store)) = 404
   \<and> status (fst (get_client 1 None listing_store)) = 404
   \<and> (\<exists>client. getClient listing_store 2 = Some client \<and> c_userId client \<noteq> 1)
   \<and> delete_client 1 (Some 2) listing_store
       = (\<lparr> status = 403, body = Message no_delete \<rparr>, listing_store)
   \<and> (\<exists>client. getClient listing_store 1 = Some client \<and> c_userId client = 1)
   \<and> status (fst (put_client 1 (Some 1) rename listing_store)) = 200
   \<and> getClient (snd (delete_client 1 (Some 1) listing_store)) 1 = None"
proof -
  have n: "getClient listing_store 9 = None" by code_simp
  obtain c2 where c2: "getClient listing_store 2 = Some c2" "c_userId c2 \<noteq> 1"
  proof -
    have "map_option c_userId (getClient listing_store 2) = Some 2"
      by code_simp
    then show thesis using that by auto
  qed
  obtain c1 where c1: "getClient listing_store 1 = Some c1" "c_userId c1 = 1"
  proof -
    have "map_option c_userId (getClient listing_store 1) = Some 1"
      by code_simp
    then show thesis using that by auto
  qed
  from C6_ownership [where i = "Some 9" and s = listing_store and userId = 1 and req_body = rename
           and n = 9 and client = c1]
       C6_ownership [where i = "None" and s = listing_store and userId = 1 and req_body = rename
           and n = 9 and client = c1]
       C6_ownership [where i = "Some 2" and s = listing_store and userId = 1 and req_body = rename
           and n = 2 and client = c2]
       C6_ownership [where i = "Some 1" and s = listing_store and userId = 1 and req_body = rename
           and n = 1 and client = c1] n c1 c2
  show ?thesis by simp
qed

subsection \<open>Frames of deletion and update\<close>

text \<open>
  C9: for every client id, \<open>deleteClient\<close> removes only that entry from the clients map
  and changes nothing else in the store: the measurements, diet plans and appointments
  maps are as before, so the measurements, diet plans and appointments of the deleted
  client are still listed.
\<close>

theorem C9_deleteClient:
  "measurements (snd (deleteClient i s)) = measurements s
   \<and> dietPlans (snd (deleteClient i s)) = dietPlans s
   \<and> appointments (snd (deleteClient i s)) = appointments s
   \<and> snd (deleteClient i s) = s\<lparr> clients := clients (snd (deleteClient i s)) \<rparr>
   \<and> clients (snd (deleteClient i s)) = filter (\<lambda>p. fst p \<noteq> i) (clients s)
   \<and> getClient (snd (deleteClient i s)) i = None
   \<and> (\<forall>k. k \<noteq> i \<longrightarrow> getClient (snd (deleteClient i s)) k = getClient s k)
   \<and> fst (deleteClient i s) = (getClient s i \<noteq> None)
   \<and> getMeasurementsForClient engine (snd (deleteClient i s)) i
       = getMeasurementsForClient engine s i
   \<and> getDietPlansForClient engine' (snd (deleteClient i s)) i
       = getDietPlansForClient engine' s i
   \<and> getAppointmentsForClient engine'' (snd (deleteClient i s)) i
       = getAppointmentsForClient engine'' s i"
proof -
  have "fst (deleteClient i s) = (getClient s i \<noteq> None)"
    by (auto simp: deleteClient_def Map_delete_def Map_has_def getClient_def Map_get_def
        map_of_eq_None_iff)
  then show ?thesis
    by (simp add: getClient_deleteClient)
       (simp add: deleteClient_def Map_delete_def getMeasurementsForClient_def
          getDietPlansForClient_def getAppointmentsForClient_def)
qed

text \<open>C9 at the store with client 1 and its three measurements: after the deletion the
  client is gone and the three measurements are still listed.\<close>

theorem C9_witness:
  "getClient undated_store 1 \<noteq> None
   \<and> getClient (snd (deleteClient 1 undated_store)) 1 = None
   \<and> map m_id (getMeasurementsForClient sample_engine (snd (deleteClient 1 undated_store)) 1)
       = [1, 2, 3]
   \<and> getClient (snd (deleteClient 1 listing_store)) 3 = getClient listing_store 3"
proof -
  have a: "getClient undated_store 1 \<noteq> None"
    "map m_id (getMeasurementsForClient sample_engine undated_store 1) = [1, 2, 3]"
    by code_simp+
  from C9_deleteClient [where i = 1 and s = undated_store and engine = sample_engine]
       C9_deleteClient [where i = 1 and s = listing_store] a
  show ?thesis by simp
qed


lemma Map_get_Map_set_other: "k' \<noteq> k \<Longrightarrow> Map_get (Map_set k v m) k' = Map_get m k'"
  by (simp add: Map_get_def map_of_Map_set)

lemma Map_set_same_keys: "Map_get m k = Some old \<Longrightarrow> map fst (Map_set k v m) = map fst m"
  by (rule Map_set_keys) (auto simp: Map_get_def dest: map_of_SomeD intro: rev_image_eqI)

lemma kept_merge:
  "kept_Client c pc (merge_Client c pc)"
  "kept_Measurement m pm (merge_Measurement m pm)"
  "kept_DietPlan d pd (merge_DietPlan d pd)"
  "kept_Appointment a pa (merge_Appointment a pa)"
  by (simp_all add: kept_Client_def merge_Client_def kept_Measurement_def
        merge_Measurement_def kept_DietPlan_def merge_DietPlan_def kept_Appointment_def
        merge_Appointment_def spread_def)

lemma update_absent:
  "getClient s i = None \<Longrightarrow> updateClient i pc s = (None, s)"
  "getMeasurement s i = None \<Longrightarrow> updateMeasurement i pm s = (None, s)"
  "getDietPlan s i = None \<Longrightarrow> updateDietPlan i pd s = (None, s)"
  "getAppointment s i = None \<Longrightarrow> updateAppointment i pa s = (None, s)"
  by (simp_all add: getClient_def updateClient_def getMeasurement_def updateMeasurement_def
        getDietPlan_def updateDietPlan_def getAppointment_def updateAppointment_def)

lemma updateClient_present:
  assumes "getClient s i = Some c"
  shows "fst (updateClient i pc s) = Some (merge_Client c pc)
    \<and> getClient (snd (updateClient i pc s)) i = Some (merge_Client c pc)
    \<and> (\<forall>k. k \<noteq> i \<longrightarrow> getClient (snd (updateClient i pc s)) k = getClient s k)
    \<and> map fst (clients (snd (updateClient i pc s))) = map fst (clients s)
    \<and> snd (updateClient i pc s) = s\<lparr> clients := clients (snd (updateClient i pc s)) \<rparr>"
  using assms Map_set_same_keys [of "clients s" i c]
  by (simp add: getClient_def updateClient_def Let_def Map_get_Map_set Map_get_Map_set_other)

lemma updateMeasurement_present:
  assumes "getMeasurement s i = Some m"
  shows "fst (updateMeasurement i pm s) = Some (merge_Measurement m pm)
    \<and> getMeasurement (snd (updateMeasurement i pm s)) i = Some (merge_Measurement m pm)
    \<and> (\<forall>k. k \<noteq> i \<longrightarrow> getMeasurement (snd (updateMeasurement i pm s)) k = getMeasurement s k)
    \<and> map fst (measurements (snd (updateMeasurement i pm s))) = map fst (measurements s)
    \<and> snd (updateMeasurement i pm s)
        = s\<lparr> measurements := measurements (snd (updateMeasurement i pm s)) \<rparr>"
  using assms Map_set_same_keys [of "measurements s" i m]
  by (simp add: getMeasurement_def updateMeasurement_def Let_def Map_get_Map_set
      Map_get_Map_set_other)

lemma updateDietPlan_present:
  assumes "getDietPlan s i = Some d"
  shows "fst (updateDietPlan i pd s) = Some (merge_DietPlan d pd)
    \<and> getDietPlan (snd (updateDietPlan i pd s)) i = Some (merge_DietPlan d pd)
    \<and> (\<forall>k. k \<noteq> i \<longrightarrow> getDietPlan (snd (updateDietPlan i pd s)) k = getDietPlan s k)
    \<and> map fst (dietPlans (snd (updateDietPlan i pd s))) = map fst (dietPlans s)
    \<and> snd (updateDietPlan i pd s) = s\<lparr> dietPlans := dietPlans (snd (updateDietPlan i pd s)) \<rparr>"
  using assms Map_set_same_keys [of "dietPlans s" i d]
  by (simp add: getDietPlan_def updateDietPlan_def Let_def Map_get_Map_set
      Map_get_Map_set_other)

lemma updateAppointment_present:
  assumes "getAppointment s i = Some a"
  shows "fst (updateAppointment i pa s) = Some (merge_Appointment a pa)
    \<and> getAppointment (snd (updateAppointment i pa s)) i = Some (merge_Appointment a pa)
    \<and> (\<forall>k. k \<noteq> i \<longrightarrow> getAppointment (snd (updateAppointment i pa s)) k = getAppointment s k)
    \<and> map fst (appointments (snd (updateAppointment i pa s))) = map fst (appointments s)
    \<and> snd (updateAppointment i pa s)
        = s\<lparr> appointments := appointments (snd (updateAppointment i pa s)) \<rparr>"
  using assms Map_set_same_keys [of "appointments s" i a]
  by (simp add: getAppointment_def updateAppointment_def Let_def Map_get_Map_set
      Map_get_Map_set_other)


text \<open>
  C10 fails on the code: the spread of an update copies every key of the object it is
  given, and the PUT routes hand over the request body as it came, so an update whose
  object carries the key \<open>id\<close> returns and stores, under the old key, an entity with
  another id. Client 1 updated with \<open>{id: 99}\<close> is returned with id 99 and is stored with
  id 99 under key 1; the owner's PUT request does the same and answers 200.
\<close>

theorem C10_id_rewritten:
  "map_option c_id (getClient listing_store 1) = Some 1
   \<and> map_option c_id (fst (updateClient 1 renumber listing_store)) = Some 99
   \<and> map_option c_id (getClient (snd (updateClient 1 renumber listing_store)) 1) = Some 99
   \<and> getClient (snd (updateClient 1 renumber listing_store)) 99 = None
   \<and> keys KClient (snd (updateClient 1 renumber listing_store)) = [1, 2, 3]
   \<and> status (fst (put_client 1 (Some 1) renumber listing_store)) = 200
   \<and> map_option c_id (getClient (snd (put_client 1 (Some 1) renumber listing_store)) 1)
       = Some 99"
  by code_simp

text \<open>
  What the updates do achieve: if no entity has the id the result is \<open>undefined\<close> and the
  store is unchanged; if one has, the merged entity is returned and stored under the same
  key, it keeps every field whose key is absent from the object (its id when the object
  carries no id), every other entry of that map is as before and in the same place, and
  every other map and every counter is unchanged.
\<close>

lemma updates_frame:
  "(getClient s i = None \<longrightarrow> updateClient i pc s = (None, s))
   \<and> (getMeasurement s i = None \<longrightarrow> updateMeasurement i pm s = (None, s))
   \<and> (getDietPlan s i = None \<longrightarrow> updateDietPlan i pd s = (None, s))
   \<and> (getAppointment s i = None \<longrightarrow> updateAppointment i pa s = (None, s))
   \<and> (getClient s i = Some c \<longrightarrow>
        (\<exists>c'. fst (updateClient i pc s) = Some c' \<and> kept_Client c pc c'
              \<and> getClient (snd (updateClient i pc s)) i = Some c')
        \<and> (\<forall>k. k \<noteq> i \<longrightarrow> getClient (snd (updateClient i pc s)) k = getClient s k)
        \<and> map fst (clients (snd (updateClient i pc s))) = map fst (clients s)
        \<and> snd (updateClient i pc s) = s\<lparr> clients := clients (snd (updateClient i pc s)) \<rparr>)
   \<and> (getMeasurement s i = Some m \<longrightarrow>
        (\<exists>m'. fst (updateMeasurement i pm s) = Some m' \<and> kept_Measurement m pm m'
              \<and> getMeasurement (snd (updateMeasurement i pm s)) i = Some m')
        \<and> (\<forall>k. k \<noteq> i \<longrightarrow>
              getMeasurement (snd (updateMeasurement i pm s)) k = getMeasurement s k)
        \<and> map fst (measurements (snd (updateMeasurement i pm s))) = map fst (measurements s)
        \<and> snd (updateMeasurement i pm s)
            = s\<lparr> measurements := measurements (snd (updateMeasurement i pm s)) \<rparr>)
   \<and> (getDietPlan s i = Some d \<longrightarrow>
        (\<exists>d'. fst (updateDietPlan i pd s) = Some d' \<and> kept_DietPlan d pd d'
              \<and> getDietPlan (snd (updateDietPlan i pd s)) i = Some d')
        \<and> (\<forall>k. k \<noteq> i \<longrightarrow> getDietPlan (snd (updateDietPlan i pd s)) k = getDietPlan s k)
        \<and> map fst (dietPlans (snd (updateDietPlan i pd s))) = map fst (dietPlans s)
        \<and> snd (updateDietPlan i pd s)
            = s\<lparr> dietPlans := dietPlans (snd (updateDietPlan i pd s)) \<rparr>)
   \<and> (getAppointment s i = Some a \<longrightarrow>
        (\<exists>a'. fst (updateAppointment i pa s) = Some a' \<and> kept_Appointment a pa a'
              \<and> getAppointment (snd (updateAppointment i pa s)) i = Some a')
        \<and> (\<forall>k. k \<noteq> i \<longrightarrow>
              getAppointment (snd (updateAppointment i pa s)) k = getAppointment s k)
        \<and> map fst (appointments (snd (updateAppointment i pa s))) = map fst (appointments s)
        \<and> snd (updateAppointment i pa s)
            = s\<lparr> appointments := appointments (snd (updateAppointment i pa s)) \<rparr>)"
proof -
  have 1: "getClient s i = Some c \<longrightarrow>
        (\<exists>c'. fst (updateClient i pc s) = Some c' \<and> kept_Client c pc c'
              \<and> getClient (snd (updateClient i pc s)) i = Some c')
        \<and> (\<forall>k. k \<noteq> i \<longrightarrow> getClient (snd (updateClient i pc s)) k = getClient s k)
        \<and> map fst (clients (snd (updateClient i pc s))) = map fst (clients s)
        \<and> snd (updateClient i pc s) = s\<lparr> clients := clients (snd (updateClient i pc s)) \<rparr>"
    using updateClient_present [of s i c pc] kept_merge(1) [of c pc] by blast
  have 2: "getMeasurement s i = Some m \<longrightarrow>
        (\<exists>m'. fst (updateMeasurement i pm s) = Some m' \<and> kept_Measurement m pm m'
              \<and> getMeasurement (snd (updateMeasurement i pm s)) i = Some m')
        \<and> (\<forall>k. k \<noteq> i \<longrightarrow>
              getMeasurement (snd (updateMeasurement i pm s)) k = getMeasurement s k)
        \<and> map fst (measurements (snd (updateMeasurement i pm s))) = map fst (measurements s)
        \<and> snd (updateMeasurement i pm s)
            = s\<lparr> measurements := measurements (snd (updateMeasurement i pm s)) \<rparr>"
    using updateMeasurement_present [of s i m pm] kept_merge(2) [of m pm] by blast
  have 3: "getDietPlan s i = Some d \<longrightarrow>
        (\<exists>d'. fst (updateDietPlan i pd s) = Some d' \<and> kept_DietPlan d pd d'
              \<and> getDietPlan (snd (updateDietPlan i pd s)) i = Some d')
        \<and> (\<forall>k. k \<noteq> i \<longrightarrow> getDietPlan (snd (updateDietPlan i pd s)) k = getDietPlan s k)
        \<and> map fst (dietPlans (snd (updateDietPlan i pd s))) = map fst (dietPlans s)
        \<and> snd (updateDietPlan i pd s)
            = s\<lparr> dietPlans := dietPlans (snd (updateDietPlan i pd s)) \<rparr>"
    using updateDietPlan_present [of s i d pd] kept_merge(3) [of d pd] by blast
  have 4: "getAppointment s i = Some a \<longrightarrow>
        (\<exists>a'. fst (updateAppointment i pa s) = Some a' \<and> kept_Appointment a pa a'
              \<and> getAppointment (snd (updateAppointment i pa s)) i = Some a')
        \<and> (\<forall>k. k \<noteq> i \<longrightarrow>
              getAppointment (snd (updateAppointment i pa s)) k = getAppointment s k)
        \<and> map fst (appointments (snd (updateAppointment i pa s))) = map fst (appointments s)
        \<and> snd (updateAppointment i pa s)
            = s\<lparr> appointments := appointments (snd (updateAppointment i pa s)) \<rparr>"
    using updateAppointment_present [of s i a pa] kept_merge(4) [of a pa] by blast
  show ?thesis
    using 1 2 3 4 update_absent [of s i] by blast
qed

text \<open>At the sample store: client 9 does not exist; renaming client 1 keeps its id and
  email and leaves client 3 alone; completing appointment 2 keeps its date.\<close>

lemma updates_frame_witness:
  "getClient listing_store 9 = None
   \<and> updateClient 9 rename listing_store = (None, listing_store)
   \<and> map_option c_fullName (getClient listing_store 1) = Some ''Ayse''
   \<and> map_option c_fullName (fst (updateClient 1 rename listing_store)) = Some ''Ayse Yilmaz''
   \<and> map_option c_email (fst (updateClient 1 rename listing_store)) = Some ''a@example.com''
   \<and> getClient (snd (updateClient 1 rename listing_store)) 3 = getClient listing_store 3
   \<and> map_option a_status (fst (updateAppointment 2 complete listing_store))
       = Some (Some ''completed'')
   \<and> map_option a_date (fst (updateAppointment 2 complete listing_store)) = Some 100"
proof -
  have n: "getClient listing_store 9 = None" by code_simp
  obtain c where c: "getClient listing_store 1 = Some c" "c_fullName c = ''Ayse''"
    "c_email c = ''a@example.com''"
  proof -
    have "map_option (\<lambda>c. (c_fullName c, c_email c)) (getClient listing_store 1)
            = Some (''Ayse'', ''a@example.com'')"
      by code_simp
    then show thesis using that by auto
  qed
  obtain a where a: "getAppointment listing_store 2 = Some a" "a_date a = 100"
  proof -
    have "map_option a_date (getAppointment listing_store 2) = Some 100"
      by code_simp
    then show thesis using that by auto
  qed
  have f: "map_option c_fullName (fst (updateClient 1 rename listing_store))
             = Some ''Ayse Yilmaz''"
    "map_option a_status (fst (updateAppointment 2 complete listing_store))
       = Some (Some ''completed'')"
    by code_simp+
  from updates_frame [where s = listing_store and i = 9 and pc = rename]
       updates_frame [where s = listing_store and i = 1 and pc = rename and c = c]
       updates_frame [where s = listing_store and i = 2 and pa = complete and a = a]
       n c a f
  show ?thesis
    by (auto simp: kept_Client_def kept_Appointment_def rename_def complete_def)
qed


subsection \<open>Login and registration\<close>

text \<open>
  C7, as stated, fails: the handler validates the body against the login schema before it
  looks the user up, so a request with an existing username and the empty string as
  password, which is not that user's password, is answered 400, not 401.
\<close>

theorem C7_counterexample:
  "map_option u_password (getUserByUsername user_store ''ayse'') = Some (sample_hash ''secret'')
   \<and> \<not> sample_compare [] (sample_hash ''secret'')
   \<and> status (login sample_compare sample_sign
                \<lparr> lb_username = Str ''ayse'', lb_password = Str [] \<rparr> user_store) = 400"
  by code_simp

text \<open>
  C7, amended: for every login request that passes the login schema (username and
  password non-empty strings) with an existing username and an incorrect password, the
  response is 401 with the same body as for a username that does not exist; a request
  that fails the schema is answered 400 with a body that depends on the request alone.
  In both cases the response does not tell whether the username exists.
\<close>

theorem C7_login:
  "(username \<noteq> [] \<and> password \<noteq> [] \<and> getUserByUsername s username = Some user
      \<and> \<not> bcrypt_compare password (u_password user)
    \<longrightarrow> login bcrypt_compare jwt_sign
          \<lparr> lb_username = Str username, lb_password = Str password \<rparr> s
        = \<lparr> status = 401, body = Message invalid_credentials \<rparr>)
   \<and> (username' \<noteq> [] \<and> password' \<noteq> [] \<and> getUserByUsername s' username' = None
    \<longrightarrow> login bcrypt_compare jwt_sign
          \<lparr> lb_username = Str username', lb_password = Str password' \<rparr> s'
        = \<lparr> status = 401, body = Message invalid_credentials \<rparr>)
   \<and> (loginSchema_parse req_body = Inl errs
    \<longrightarrow> login bcrypt_compare jwt_sign req_body s
        = \<lparr> status = 400, body = ValidationMessage errs \<rparr>
      \<and> login bcrypt_compare jwt_sign req_body s' = login bcrypt_compare jwt_sign req_body s)"
  by (simp add: login_def loginSchema_parse_def issues_def nonempty_string_def string_of_def)

text \<open>C7 at the store where ayse has registered: a wrong password for ayse and any
  password for nobody get the same 401; the right password gets 200.\<close>

theorem C7_witness:
  "map_option (\<lambda>user. (u_username user, sample_compare ''wrong'' (u_password user)))
       (getUserByUsername user_store ''ayse'') = Some (''ayse'', False)
   \<and> getUserByUsername user_store ''nobody'' = None
   \<and> login sample_compare sample_sign
        \<lparr> lb_username = Str ''ayse'', lb_password = Str ''wrong'' \<rparr> user_store
      = \<lparr> status = 401, body = Message invalid_credentials \<rparr>
   \<and> login sample_compare sample_sign
        \<lparr> lb_username = Str ''nobody'', lb_password = Str ''wrong'' \<rparr> user_store
      = login sample_compare sample_sign
          \<lparr> lb_username = Str ''ayse'', lb_password = Str ''wrong'' \<rparr> user_store
   \<and> status (login sample_compare sample_sign
                \<lparr> lb_username = Str ''ayse'', lb_password = Str ''secret'' \<rparr> user_store)
      = 200"
proof -
  have e: "map_option (\<lambda>user. (u_username user, sample_compare ''wrong'' (u_password user)))
       (getUserByUsername user_store ''ayse'') = Some (''ayse'', False)"
    by code_simp
  then obtain user where u: "getUserByUsername user_store ''ayse'' = Some user"
    "\<not> sample_compare ''wrong'' (u_password user)"
    by auto
  have n: "getUserByUsername user_store ''nobody'' = None" by code_simp
  have ok: "status (login sample_compare sample_sign
                \<lparr> lb_username = Str ''ayse'', lb_password = Str ''secret'' \<rparr> user_store)
      = 200"
    by code_simp
  from C7_login [where username = "''ayse''" and password = "''wrong''" and s = user_store
           and user = user and bcrypt_compare = sample_compare and jwt_sign = sample_sign
           and username' = "''nobody''" and password' = "''wrong''" and s' = user_store]
       e u n ok
  show ?thesis by simp
qed

lemma first_with_username_None:
  "(first_with_username n us = None) = (n \<notin> set (map u_username us))"
  by (induction us) auto

lemma getUserByUsername_stored:
  "(getUserByUsername s n \<noteq> None) = (n \<in> set (map u_username (Map_values (users s))))"
  by (simp add: getUserByUsername_def first_with_username_None)

lemma distinct_Map_set:
  "distinct (map g (Map_values m)) \<Longrightarrow> g v \<notin> set (map g (Map_values m)) \<Longrightarrow>
   distinct (map g (Map_values (Map_set k v m)))"
proof (induction m)
  case Nil
  show ?case by (simp add: Map_values_def)
next
  case (Cons p ps)
  show ?case
  proof (cases "fst p = k")
    case True
    then show ?thesis using Cons.prems by (simp add: Map_values_def)
  next
    case False
    have "set (Map_set k v ps) \<subseteq> insert (k, v) (set ps)" by (rule set_Map_set)
    then have "g (snd p) \<notin> set (map g (Map_values (Map_set k v ps)))"
      using Cons.prems by (auto simp: Map_values_def)
    moreover have "distinct (map g (Map_values (Map_set k v ps)))"
      using Cons by (simp add: Map_values_def)
    ultimately show ?thesis
      using False by (simp add: Map_values_def)
  qed
qed

text \<open>
  C8: every registration request whose username is that of a user in the store is
  answered 400 and leaves the store unchanged, so no second user with that username is
  added; the body is the username-taken message when the request passes the schema and
  the validation message otherwise. No registration, whatever its body, puts a second
  user of one name into a store that had none.
\<close>

theorem C8_register:
  "(rb_username req_body = Str username
      \<and> username \<in> set (map u_username (Map_values (users s)))
    \<longrightarrow> status (fst (register bcrypt_hash jwt_sign now req_body s)) = 400
      \<and> snd (register bcrypt_hash jwt_sign now req_body s) = s
      \<and> (\<forall>userData. insertUserSchema_parse req_body = Inr userData
           \<longrightarrow> fst (register bcrypt_hash jwt_sign now req_body s)
               = \<lparr> status = 400, body = Message username_taken \<rparr>)
      \<and> (\<forall>errs. insertUserSchema_parse req_body = Inl errs
           \<longrightarrow> fst (register bcrypt_hash jwt_sign now req_body s)
               = \<lparr> status = 400, body = ValidationMessage errs \<rparr>))
   \<and> (distinct (map u_username (Map_values (users s)))
    \<longrightarrow> distinct (map u_username
          (Map_values (users (snd (register bcrypt_hash jwt_sign now req_body s))))))"
proof (intro conjI impI)
  assume a: "rb_username req_body = Str username
             \<and> username \<in> set (map u_username (Map_values (users s)))"
  then obtain existingUser where e: "getUserByUsername s username = Some existingUser"
    using getUserByUsername_stored [of s username] by auto
  have u: "iu_username userData = username"
    if "insertUserSchema_parse req_body = Inr userData" for userData
    using that a
    by (auto simp: insertUserSchema_parse_def Let_def string_of_def split: if_splits)
  show "status (fst (register bcrypt_hash jwt_sign now req_body s)) = 400"
    "snd (register bcrypt_hash jwt_sign now req_body s) = s"
    "\<forall>userData. insertUserSchema_parse req_body = Inr userData
       \<longrightarrow> fst (register bcrypt_hash jwt_sign now req_body s)
           = \<lparr> status = 400, body = Message username_taken \<rparr>"
    "\<forall>errs. insertUserSchema_parse req_body = Inl errs
       \<longrightarrow> fst (register bcrypt_hash jwt_sign now req_body s)
           = \<lparr> status = 400, body = ValidationMessage errs \<rparr>"
    using u e by (cases "insertUserSchema_parse req_body"; simp add: register_def)+
next
  assume d: "distinct (map u_username (Map_values (users s)))"
  show "distinct (map u_username
          (Map_values (users (snd (register bcrypt_hash jwt_sign now req_body s)))))"
  proof (cases "insertUserSchema_parse req_body")
    case (Inl errs)
    then show ?thesis using d by (simp add: register_def)
  next
    case (Inr userData)
    show ?thesis
    proof (cases "getUserByUsername s (iu_username userData)")
      case (Some existingUser)
      then show ?thesis using d Inr by (simp add: register_def)
    next
      case None
      then have "iu_username userData \<notin> set (map u_username (Map_values (users s)))"
        using getUserByUsername_stored [of s "iu_username userData"] by simp
      then show ?thesis
        using d Inr None
        by (simp add: register_def createUser_def Let_def distinct_Map_set)
    qed
  qed
qed

text \<open>C8 at the store where ayse has registered: registering ayse again is refused and
  the store still has the one user.\<close>

theorem C8_witness:
  "map u_username (Map_values (users user_store)) = [''ayse'']
   \<and> register sample_hash sample_sign 6 ayse_body user_store
       = (\<lparr> status = 400, body = Message username_taken \<rparr>, user_store)
   \<and> status (fst (register sample_hash sample_sign 5 ayse_body (new_MemStorage 0 0 0))) = 201"
proof -
  have l: "map u_username (Map_values (users user_store)) = [''ayse'']"
    "status (fst (register sample_hash sample_sign 5 ayse_body (new_MemStorage 0 0 0))) = 201"
    by code_simp+
  have p: "insertUserSchema_parse ayse_body
             = Inr \<lparr> iu_username = ''ayse'', iu_password = ''secret'',
                     iu_email = ''ayse@example.com'', iu_fullName = ''Ayse Yilmaz'',
                     iu_profileImage = None, iu_telegramToken = None,
                     iu_telegramChatId = None \<rparr>"
    by code_simp
  have r: "rb_username ayse_body = Str ''ayse''" by (simp add: ayse_body_def)
  from C8_register [where req_body = ayse_body and username = "''ayse''" and s = user_store
           and bcrypt_hash = sample_hash and jwt_sign = sample_sign and now = 6]
       p r l
  show ?thesis by (simp add: prod_eq_iff)
qed

end
